theory Spec2Isabelle
  imports Complex_Main
begin

section \<open>JavaScript values\<close>

text \<open>
  The program handles untyped data: request bodies, parsed upstream chunks, error
  payloads. Such a value is a JSON value or \<open>undefined\<close>. A string is kept as the
  list of bytes of its UTF-8 encoding; an object as its list of own properties, read
  with \<open>map_of\<close>.
\<close>

datatype json =
    JUndefined
  | JNull
  | JBool bool
  | JNum real
  | JStr string
  | JArr "json list"
  | JObj "(string \<times> json) list"

text \<open>Truthiness, as tested by \<open>if (v)\<close>, \<open>v || d\<close> and \<open>v && w\<close>.\<close>

fun truthy :: "json \<Rightarrow> bool" where
  "truthy JUndefined = False"
| "truthy JNull = False"
| "truthy (JBool b) = b"
| "truthy (JNum n) = (n \<noteq> 0)"
| "truthy (JStr s) = (s \<noteq> [])"
| "truthy (JArr xs) = True"
| "truthy (JObj kvs) = True"

definition js_or :: "json \<Rightarrow> json \<Rightarrow> json" where
  "js_or a b = (if truthy a then a else b)"

definition nullish :: "json \<Rightarrow> bool" where
  "nullish v = (v = JUndefined \<or> v = JNull)"

text \<open>
  Property read \<open>v.k\<close> for the property names the program uses (none of them is
  \<open>length\<close> or a name inherited from a prototype): reading a property of
  \<open>null\<close> or \<open>undefined\<close> throws a TypeError (\<open>None\<close>), a property of a
  primitive or of an array is \<open>undefined\<close>.
\<close>

fun get_prop :: "json \<Rightarrow> string \<Rightarrow> json option" where
  "get_prop JUndefined k = None"
| "get_prop JNull k = None"
| "get_prop (JObj kvs) k = Some (case map_of kvs k of None \<Rightarrow> JUndefined | Some v \<Rightarrow> v)"
| "get_prop v k = Some JUndefined"

text \<open>Optional chaining \<open>v?.k\<close> never throws.\<close>

definition opt_get :: "json \<Rightarrow> string \<Rightarrow> json" where
  "opt_get v k = (case get_prop v k of None \<Rightarrow> JUndefined | Some w \<Rightarrow> w)"

text \<open>
  \<open>v?.[0]\<close>: the first element of an array, the first character of a string, the
  property \<open>0\<close> of an object. (Of a character the program only ever reads
  properties, which are all \<open>undefined\<close>, so it is kept as one byte.)
\<close>

fun opt_index0 :: "json \<Rightarrow> json" where
  "opt_index0 (JArr (x # xs)) = x"
| "opt_index0 (JStr (c # cs)) = JStr [c]"
| "opt_index0 (JObj kvs) = (case map_of kvs ''0'' of None \<Rightarrow> JUndefined | Some v \<Rightarrow> v)"
| "opt_index0 v = JUndefined"

text \<open>
  \<open>for (const x of v)\<close>: arrays and strings are iterable, anything else throws a
  TypeError (\<open>None\<close>).
\<close>

fun iterate :: "json \<Rightarrow> json list option" where
  "iterate (JArr xs) = Some xs"
| "iterate (JStr s) = Some (map (\<lambda>c. JStr [c]) s)"
| "iterate v = None"

text \<open>
  String conversion (\<open>String(v)\<close>, \<open>Array.prototype.join\<close>). The decimal form of a
  number is the platform's and is the parameter \<open>numstr\<close>.
\<close>

fun join :: "string \<Rightarrow> string list \<Rightarrow> string" where
  "join sep [] = []"
| "join sep [x] = x"
| "join sep (x # y # ys) = x @ sep @ join sep (y # ys)"

fun ToString :: "(real \<Rightarrow> string) \<Rightarrow> json \<Rightarrow> string" where
  "ToString numstr JUndefined = ''undefined''"
| "ToString numstr JNull = ''null''"
| "ToString numstr (JBool b) = (if b then ''true'' else ''false'')"
| "ToString numstr (JNum n) = numstr n"
| "ToString numstr (JStr s) = s"
| "ToString numstr (JArr xs) =
     join '','' (map (\<lambda>x. if x = JUndefined \<or> x = JNull then [] else ToString numstr x) xs)"
| "ToString numstr (JObj kvs) = ''[object Object]''"

definition array_join :: "(real \<Rightarrow> string) \<Rightarrow> string \<Rightarrow> json list \<Rightarrow> string" where
  "array_join numstr sep xs =
     join sep (map (\<lambda>x. if x = JUndefined \<or> x = JNull then [] else ToString numstr x) xs)"

section \<open>Model resolution (index.ts, resolveModelMapping)\<close>

text \<open>
  An entry of the mapping table is either a bare upstream model name or an object
  \<open>{target, reasoning_effort?}\<close> (interface ModelMapping of config.ts).
\<close>

datatype ModelMapping = MapString string | MapObject string "string option"

text \<open>
  ProxyConfig of config.ts. An optional field that is absent is \<open>None\<close>. The mapping
  table is a plain object, given by its own entries.
\<close>

record ProxyConfig =
  log_level :: "string option"
  model_mapping :: "(string \<rightharpoonup> ModelMapping) option"
  default_model :: "string option"
  default_reasoning_effort :: "string option"
  base_url :: "string option"
  idcs_url :: "string option"
  port :: "nat option"

text \<open>The result \<open>{model, reasoning_effort?}\<close>; a field that is \<open>undefined\<close> is \<open>None\<close>.\<close>

record resolved_model =
  model :: "string option"
  reasoning_effort :: "string option"

definition DEFAULT_OCA_MODEL :: string where
  "DEFAULT_OCA_MODEL = ''oca/gpt-4.1''"

definition startsWith :: "string \<Rightarrow> string \<Rightarrow> bool" where
  "startsWith s p = (take (length p) s = p)"

text \<open>JavaScript \<open>a || b\<close> on an optional string: absent and empty are both falsy.\<close>

definition str_or :: "string option \<Rightarrow> string \<Rightarrow> string" where
  "str_or a b = (case a of None \<Rightarrow> b | Some s \<Rightarrow> if s = [] then b else s)"

text \<open>
  \<open>proxyConfig.model_mapping?.[requestModel]\<close>. The table is a plain object, so the
  read finds an own entry or, for a name that \<open>Object.prototype\<close> defines, the
  inherited member: a function, or for \<open>__proto__\<close> the prototype itself. Such a
  member is truthy, is no string, and has no \<open>target\<close> and no \<open>reasoning_effort\<close>.
\<close>

definition Object_prototype_names :: "string list" where
  "Object_prototype_names =
     [''constructor'', ''__defineGetter__'', ''__defineSetter__'', ''hasOwnProperty'',
      ''__lookupGetter__'', ''__lookupSetter__'', ''isPrototypeOf'', ''propertyIsEnumerable'',
      ''toString'', ''valueOf'', ''__proto__'', ''toLocaleString'']"

datatype table_value = Entry ModelMapping | PrototypeMember

definition mapping_lookup :: "ProxyConfig \<Rightarrow> string \<Rightarrow> table_value option" where
  "mapping_lookup proxyConfig requestModel =
     (case model_mapping proxyConfig of
        None \<Rightarrow> None
      | Some m \<Rightarrow>
          (case m requestModel of
             Some entry \<Rightarrow> Some (Entry entry)
           | None \<Rightarrow>
               if requestModel \<in> set Object_prototype_names then Some PrototypeMember else None))"

definition resolveModelMapping :: "ProxyConfig \<Rightarrow> string \<Rightarrow> resolved_model" where
  "resolveModelMapping proxyConfig requestModel =
     (let dflt = \<lparr> model = Some (str_or (default_model proxyConfig) DEFAULT_OCA_MODEL),
                    reasoning_effort = default_reasoning_effort proxyConfig \<rparr>
      in if startsWith requestModel ''oca/''
         then \<lparr> model = Some requestModel, reasoning_effort = None \<rparr>
         else (case mapping_lookup proxyConfig requestModel of
                 None \<Rightarrow> dflt
               | Some (Entry (MapString t)) \<Rightarrow>
                   if t = [] then dflt else \<lparr> model = Some t, reasoning_effort = None \<rparr>
               | Some (Entry (MapObject t e)) \<Rightarrow> \<lparr> model = Some t, reasoning_effort = e \<rparr>
               | Some PrototypeMember \<Rightarrow> \<lparr> model = None, reasoning_effort = None \<rparr>))"

text \<open>
  loadProxyConfig of config.ts, applied to the content of the configuration file. The
  proxy configuration that resolveModelMapping reads is its result at start-up.
\<close>

definition loadProxyConfig :: "ProxyConfig \<Rightarrow> ProxyConfig" where
  "loadProxyConfig cfg =
     \<lparr> log_level = Some (str_or (log_level cfg) ''INFO''),
       model_mapping = Some (case model_mapping cfg of None \<Rightarrow> Map.empty | Some m \<Rightarrow> m),
       default_model = default_model cfg,
       default_reasoning_effort = None,
       base_url = base_url cfg,
       idcs_url = idcs_url cfg,
       port = port cfg \<rparr>"

section \<open>Request transcoding (index.ts, anthropicToOpenAI)\<close>

text \<open>
  The request body has the declared parameter type of anthropicToOpenAI; its fields of
  type \<open>unknown\<close> are JavaScript values.
\<close>

record anthropic_message =
  role :: string
  content :: json

record anthropic_tool =
  name :: "string option"
  description :: "string option"
  input_schema :: json

record anthropic_body =
  system :: json
  messages :: "anthropic_message list option"
  body_model :: "string option"
  tools :: "anthropic_tool list option"
  tool_choice :: json
  max_tokens :: "real option"
  temperature :: "real option"
  top_p :: "real option"

record openai_tool =
  fn_name :: "string option"
  fn_description :: string
  fn_parameters :: json

record openai_request =
  req_model :: "string option"
  req_messages :: "json list"
  req_stream :: bool
  req_reasoning_effort :: "string option"
  req_tools :: "openai_tool list option"
  req_tool_choice :: "json option"
  req_max_tokens :: "real option"
  req_temperature :: "real option"
  req_top_p :: "real option"

text \<open>
  The text blocks of an array-valued system prompt:
  \<open>filter(c => c.type === "text").map(c => c.text || "")\<close>. Reading \<open>c.type\<close> of a
  \<open>null\<close> element throws.
\<close>

fun system_texts :: "json list \<Rightarrow> json list option" where
  "system_texts [] = Some []"
| "system_texts (c # cs) =
     (case get_prop c ''type'' of
        None \<Rightarrow> None
      | Some ty \<Rightarrow>
          (case system_texts cs of
             None \<Rightarrow> None
           | Some r \<Rightarrow>
               if ty = JStr ''text'' then Some (js_or (opt_get c ''text'') (JStr []) # r)
               else Some r))"

text \<open>
  The loop over the blocks of one message. Its state is \<open>textParts\<close>,
  \<open>toolCalls\<close> and the output list \<open>messages\<close>, to which a \<open>tool_result\<close> block
  is pushed at once.
\<close>

fun convert_blocks ::
  "(json \<Rightarrow> string) \<Rightarrow> (real \<Rightarrow> string) \<Rightarrow> json list \<Rightarrow>
   json list \<times> json list \<times> json list \<Rightarrow> (json list \<times> json list \<times> json list) option" where
  "convert_blocks stringify numstr [] st = Some st"
| "convert_blocks stringify numstr (block # blocks) (textParts, toolCalls, msgs) =
     (case get_prop block ''type'' of
        None \<Rightarrow> None
      | Some ty \<Rightarrow>
          if ty = JStr ''text'' then
            convert_blocks stringify numstr blocks
              (textParts @ [js_or (opt_get block ''text'') (JStr [])], toolCalls, msgs)
          else if ty = JStr ''tool_use'' then
            convert_blocks stringify numstr blocks
              (textParts,
               toolCalls @
                 [JObj [(''id'', opt_get block ''id''),
                        (''type'', JStr ''function''),
                        (''function'',
                           JObj [(''name'', opt_get block ''name''),
                                 (''arguments'',
                                    JStr (stringify (js_or (opt_get block ''input'') (JObj []))))])]],
               msgs)
          else if ty = JStr ''tool_result'' then
            convert_blocks stringify numstr blocks
              (textParts, toolCalls,
               msgs @
                 [JObj [(''role'', JStr ''tool''),
                        (''tool_call_id'', opt_get block ''tool_use_id''),
                        (''content'',
                           JStr (ToString numstr (js_or (opt_get block ''content'') (JStr []))))]])
          else convert_blocks stringify numstr blocks (textParts, toolCalls, msgs))"

definition msgDict :: "(real \<Rightarrow> string) \<Rightarrow> string \<Rightarrow> json list \<Rightarrow> json list \<Rightarrow> json" where
  "msgDict numstr r textParts toolCalls =
     JObj ([(''role'', JStr r)]
           @ (if textParts \<noteq> [] then [(''content'', JStr (array_join numstr '' '' textParts))] else [])
           @ (if toolCalls \<noteq> [] then [(''tool_calls'', JArr toolCalls)] else []))"

fun convert_messages ::
  "(json \<Rightarrow> string) \<Rightarrow> (real \<Rightarrow> string) \<Rightarrow> anthropic_message list \<Rightarrow> json list \<Rightarrow>
   json list option" where
  "convert_messages stringify numstr [] msgs = Some msgs"
| "convert_messages stringify numstr (msg # rest) msgs =
     (case content msg of
        JArr blocks \<Rightarrow>
          (case convert_blocks stringify numstr blocks ([], [], msgs) of
             None \<Rightarrow> None
           | Some (textParts, toolCalls, msgs') \<Rightarrow>
               convert_messages stringify numstr rest
                 (if (textParts \<noteq> [] \<and> array_join numstr '' '' textParts \<noteq> []) \<or> toolCalls \<noteq> []
                  then msgs' @ [msgDict numstr (role msg) textParts toolCalls]
                  else msgs'))
      | c \<Rightarrow>
          convert_messages stringify numstr rest
            (msgs @ [JObj [(''role'', JStr (role msg)), (''content'', c)]]))"

definition system_message :: "(real \<Rightarrow> string) \<Rightarrow> json \<Rightarrow> json list option" where
  "system_message numstr sys =
     (if truthy sys then
        (case sys of
           JArr cs \<Rightarrow>
             (case system_texts cs of
                None \<Rightarrow> None
              | Some ts \<Rightarrow>
                  Some [JObj [(''role'', JStr ''system''),
                              (''content'', JStr (array_join numstr '' '' ts))]])
         | s \<Rightarrow> Some [JObj [(''role'', JStr ''system''), (''content'', s)]])
      else Some [])"

definition convert_tool_choice :: "json \<Rightarrow> json option" where
  "convert_tool_choice tc =
     (if truthy tc then
        (if (case tc of JObj _ \<Rightarrow> True | JArr _ \<Rightarrow> True | _ \<Rightarrow> False)
            \<and> opt_get tc ''type'' = JStr ''tool''
         then Some (JObj [(''type'', JStr ''function''),
                          (''function'', JObj [(''name'', opt_get tc ''name'')])])
         else if tc = JStr ''auto'' then Some (JStr ''auto'')
         else if tc = JStr ''any'' then Some (JStr ''required'')
         else None)
      else None)"

definition convert_tool :: "anthropic_tool \<Rightarrow> openai_tool" where
  "convert_tool tool =
     \<lparr> fn_name = name tool,
       fn_description = str_or (description tool) [],
       fn_parameters = js_or (input_schema tool) (JObj []) \<rparr>"

text \<open>
  anthropicToOpenAI. \<open>None\<close> is the TypeError thrown while the blocks are read; the
  route handler answers it with status 500 and sends no upstream request.
\<close>

definition anthropicToOpenAI ::
  "ProxyConfig \<Rightarrow> (json \<Rightarrow> string) \<Rightarrow> (real \<Rightarrow> string) \<Rightarrow> anthropic_body \<Rightarrow>
   openai_request option" where
  "anthropicToOpenAI proxyConfig stringify numstr body =
     (case system_message numstr (system body) of
        None \<Rightarrow> None
      | Some sysmsgs \<Rightarrow>
          (case convert_messages stringify numstr
                  (case messages body of None \<Rightarrow> [] | Some ms \<Rightarrow> ms) sysmsgs of
             None \<Rightarrow> None
           | Some msgs \<Rightarrow>
               (let resolved = resolveModelMapping proxyConfig
                                 (str_or (body_model body) ''claude-3-5-sonnet-20241022'')
                in Some
                  \<lparr> req_model = model resolved,
                    req_messages = msgs,
                    req_stream = True,
                    req_reasoning_effort =
                      (case reasoning_effort resolved of
                         None \<Rightarrow> None
                       | Some e \<Rightarrow> if e = [] then None else Some e),
                    req_tools = map_option (map convert_tool) (tools body),
                    req_tool_choice =
                      (case tools body of
                         None \<Rightarrow> None
                       | Some ts \<Rightarrow> convert_tool_choice (tool_choice body)),
                    req_max_tokens =
                      (case max_tokens body of
                         None \<Rightarrow> None
                       | Some m \<Rightarrow> if m \<noteq> 0 then Some (min m 16384) else None),
                    req_temperature = temperature body,
                    req_top_p = top_p body \<rparr>)))"

section \<open>Upstream byte stream: chunks, decoding, lines\<close>

text \<open>
  A chunk of the upstream response is a Buffer, here the list of its bytes.
  \<open>chunk.toString()\<close> decodes the bytes of that one chunk as UTF-8. The stream
  functions below take the decoder as the parameter \<open>decode\<close>; \<open>utf8_toString\<close>
  is the platform's decoder: a well-formed sequence is kept, each ill-formed or
  truncated sequence becomes one replacement character U+FFFD (bytes EF BF BD in the
  representation of strings used here).
\<close>

definition REPLACEMENT :: string where
  "REPLACEMENT = [CHR 0xEF, CHR 0xBF, CHR 0xBD]"

function utf8_decode :: "string \<Rightarrow> nat \<Rightarrow> nat \<Rightarrow> nat \<Rightarrow> string \<Rightarrow> string" where
  "utf8_decode pending needed lower upper [] = (if needed = 0 then [] else REPLACEMENT)"
| "utf8_decode pending needed lower upper (b # bs) =
     (let v = (of_char b :: nat) in
      if needed = 0 then
        (if v \<le> 0x7F then b # utf8_decode [] 0 0x80 0xBF bs
         else if 0xC2 \<le> v \<and> v \<le> 0xDF then utf8_decode [b] 1 0x80 0xBF bs
         else if 0xE0 \<le> v \<and> v \<le> 0xEF then
           utf8_decode [b] 2 (if v = 0xE0 then 0xA0 else 0x80) (if v = 0xED then 0x9F else 0xBF) bs
         else if 0xF0 \<le> v \<and> v \<le> 0xF4 then
           utf8_decode [b] 3 (if v = 0xF0 then 0x90 else 0x80) (if v = 0xF4 then 0x8F else 0xBF) bs
         else REPLACEMENT @ utf8_decode [] 0 0x80 0xBF bs)
      else if v < lower \<or> upper < v then REPLACEMENT @ utf8_decode [] 0 0x80 0xBF (b # bs)
      else if needed = 1 then pending @ [b] @ utf8_decode [] 0 0x80 0xBF bs
      else utf8_decode (pending @ [b]) (needed - 1) 0x80 0xBF bs)"
  by pat_completeness auto
termination
  by (relation "measure (\<lambda>(p, n, l, u, bs). 2 * length bs + (if n = 0 then 0 else 1))") auto

definition utf8_toString :: "string \<Rightarrow> string" where
  "utf8_toString chunk = utf8_decode [] 0 0x80 0xBF chunk"

text \<open>\<open>s.split("\n")\<close>: never empty; the last element is the text after the last newline.\<close>

fun split_newline :: "string \<Rightarrow> string list" where
  "split_newline [] = [[]]"
| "split_newline (c # cs) =
     (if c = CHR 0x0A then [] # split_newline cs
      else (case split_newline cs of [] \<Rightarrow> [[c]] | l # ls \<Rightarrow> (c # l) # ls))"

section \<open>Streaming transcoder (index.ts, streamAnthropicResponse)\<close>

text \<open>
  Each yielded string is \<open>event: <type>\\ndata: <JSON>\\n\\n\<close>; an event is modelled by
  the type and the variable parts of its JSON payload.
\<close>

datatype content_block = TextBlock | ToolUseBlock json json

datatype block_delta = TextDelta json | InputJsonDelta json

datatype sse_event =
    MessageStart string string
  | ContentBlockStart nat content_block
  | ContentBlockDelta nat block_delta
  | ContentBlockStop nat
  | MessageDelta json json
  | MessageStop

text \<open>
  The local variables of the generator. \<open>tc_input\<close> holds the argument fragments
  appended to \<open>currentToolCall.input\<close>, in order.
\<close>

record tool_call =
  tc_id :: json
  tc_name :: json
  tc_input :: "json list"

record stream_state =
  contentBlockIndex :: nat
  textBlockStarted :: bool
  currentToolCall :: "tool_call option"

text \<open>
  One iteration of the loop over \<open>delta.tool_calls\<close>. The only statement that can
  throw is the first one, the read of \<open>toolCallDelta.id\<close>.
\<close>

definition tool_call_delta :: "json \<Rightarrow> stream_state \<Rightarrow> (sse_event list \<times> stream_state) option" where
  "tool_call_delta toolCallDelta st =
     (case get_prop toolCallDelta ''id'' of
        None \<Rightarrow> None
      | Some toolCallId \<Rightarrow>
          (let functionData = js_or (opt_get toolCallDelta ''function'') (JObj []);
               (ev1, st1) =
                 (if truthy toolCallId then
                    (let (ev0, st0) =
                           (if textBlockStarted st
                            then ([ContentBlockStop (contentBlockIndex st)],
                                  st\<lparr> contentBlockIndex := contentBlockIndex st + 1,
                                      textBlockStarted := False \<rparr>)
                            else ([], st));
                         nm = js_or (opt_get functionData ''name'') (JStr [])
                     in (ev0 @ [ContentBlockStart (contentBlockIndex st0) (ToolUseBlock toolCallId nm)],
                         st0\<lparr> currentToolCall :=
                                Some \<lparr> tc_id = toolCallId, tc_name = nm, tc_input = [] \<rparr> \<rparr>))
                  else ([], st));
               args = opt_get functionData ''arguments''
           in Some
                (case currentToolCall st1 of
                   None \<Rightarrow> (ev1, st1)
                 | Some tc \<Rightarrow>
                     if truthy args
                     then (ev1 @ [ContentBlockDelta (contentBlockIndex st1) (InputJsonDelta args)],
                           st1\<lparr> currentToolCall := Some (tc\<lparr> tc_input := tc_input tc @ [args] \<rparr>) \<rparr>)
                     else (ev1, st1))))"

text \<open>The loop; the flag is False when an iteration threw.\<close>

fun tool_calls_loop :: "json list \<Rightarrow> stream_state \<Rightarrow> sse_event list \<times> stream_state \<times> bool" where
  "tool_calls_loop [] st = ([], st, True)"
| "tool_calls_loop (d # ds) st =
     (case tool_call_delta d st of
        None \<Rightarrow> ([], st, False)
      | Some (ev, st') \<Rightarrow>
          (let (evs, st'', ok) = tool_calls_loop ds st' in (ev @ evs, st'', ok)))"

definition map_stop_reason :: "json \<Rightarrow> json" where
  "map_stop_reason finish_reason =
     (if finish_reason = JStr ''tool_calls'' then JStr ''tool_use''
      else if finish_reason = JStr ''stop'' then JStr ''end_turn''
      else finish_reason)"

text \<open>
  The body of the \<open>try\<close> block for one parsed chunk. An exception ends the block;
  what was yielded and assigned before it stays.
\<close>

definition handle_data :: "json \<Rightarrow> stream_state \<Rightarrow> sse_event list \<times> stream_state" where
  "handle_data data st =
     (case get_prop data ''choices'' of
        None \<Rightarrow> ([], st)
      | Some choices \<Rightarrow>
          (let choice = (if nullish choices then JUndefined else opt_index0 choices);
               delta = opt_get choice ''delta'';
               (ev1, st1, ok) =
                 (if truthy (opt_get delta ''tool_calls'') then
                    (case iterate (opt_get delta ''tool_calls'') of
                       None \<Rightarrow> ([], st, False)
                     | Some ds \<Rightarrow> tool_calls_loop ds st)
                  else if truthy (opt_get delta ''content'') then
                    ((if textBlockStarted st then []
                      else [ContentBlockStart (contentBlockIndex st) TextBlock])
                     @ [ContentBlockDelta (contentBlockIndex st) (TextDelta (opt_get delta ''content''))],
                     st\<lparr> textBlockStarted := True \<rparr>, True)
                  else ([], st, True))
           in if ok \<and> truthy (opt_get choice ''finish_reason'') then
                (ev1 @ [ContentBlockStop (contentBlockIndex st1),
                        MessageDelta (map_stop_reason (opt_get choice ''finish_reason''))
                          (js_or (opt_get (js_or (opt_get data ''usage'') (JObj [])) ''completion_tokens'')
                                 (JNum 0)),
                        MessageStop],
                 st1)
              else (ev1, st1)))"

text \<open>One line; the flag is True when the generator returns (the line is \<open>[DONE]\<close>).\<close>

definition process_line ::
  "(string \<Rightarrow> json option) \<Rightarrow> string \<Rightarrow> stream_state \<Rightarrow> sse_event list \<times> stream_state \<times> bool" where
  "process_line parse line st =
     (if line = [] \<or> startsWith line '':'' then ([], st, False)
      else if \<not> startsWith line ''data: '' then ([], st, False)
      else (let dataStr = drop 6 line in
            if dataStr = ''[DONE]'' then ([MessageStop], st, True)
            else (case parse dataStr of
                    None \<Rightarrow> ([], st, False)
                  | Some data \<Rightarrow> (let (ev, st') = handle_data data st in (ev, st', False)))))"

fun process_lines ::
  "(string \<Rightarrow> json option) \<Rightarrow> string list \<Rightarrow> stream_state \<Rightarrow> sse_event list \<times> stream_state \<times> bool" where
  "process_lines parse [] st = ([], st, False)"
| "process_lines parse (line # lines) st =
     (let (ev, st', returned) = process_line parse line st in
      if returned then (ev, st', True)
      else (let (evs, st'', r) = process_lines parse lines st' in (ev @ evs, st'', r)))"

text \<open>
  The loop over the chunks: \<open>buffer += chunk.toString()\<close>, split, keep the last piece
  as the new buffer, handle the lines before it. \<open>parse\<close> is \<open>JSON.parse\<close>
  (\<open>None\<close> when it throws).
\<close>

fun stream_loop ::
  "(string \<Rightarrow> string) \<Rightarrow> (string \<Rightarrow> json option) \<Rightarrow> string list \<Rightarrow> string \<Rightarrow> stream_state \<Rightarrow>
   sse_event list" where
  "stream_loop decode parse [] buffer st = []"
| "stream_loop decode parse (chunk # chunks) buffer st =
     (let lines = split_newline (buffer @ decode chunk);
          (ev, st', returned) = process_lines parse (butlast lines) st
      in if returned then ev else ev @ stream_loop decode parse chunks (last lines) st')"

definition streamAnthropicResponse ::
  "(string \<Rightarrow> string) \<Rightarrow> (string \<Rightarrow> json option) \<Rightarrow> string list \<Rightarrow> string \<Rightarrow> string \<Rightarrow>
   sse_event list" where
  "streamAnthropicResponse decode parse openaiStream messageId modelName =
     MessageStart messageId modelName
     # stream_loop decode parse openaiStream []
         \<lparr> contentBlockIndex = 0, textBlockStarted = False, currentToolCall = None \<rparr>"

section \<open>Non-streaming aggregation (index.ts, POST /v1/messages)\<close>

record aggregate =
  fullContent :: string
  finishReason :: json
  promptTokens :: json
  completionTokens :: json

text \<open>The body of the \<open>try\<close> block of the aggregation loop.\<close>

definition aggregate_data :: "(real \<Rightarrow> string) \<Rightarrow> json \<Rightarrow> aggregate \<Rightarrow> aggregate" where
  "aggregate_data numstr data a =
     (case get_prop data ''choices'' of
        None \<Rightarrow> a
      | Some choices \<Rightarrow>
          (let choice = (if nullish choices then JUndefined else opt_index0 choices);
               delta = opt_get choice ''delta'';
               a1 = (if truthy (opt_get delta ''content'')
                     then a\<lparr> fullContent := fullContent a @ ToString numstr (opt_get delta ''content'') \<rparr>
                     else a);
               a2 = (if truthy (opt_get choice ''finish_reason'')
                     then a1\<lparr> finishReason :=
                               (if opt_get choice ''finish_reason'' = JStr ''stop''
                                then JStr ''end_turn'' else opt_get choice ''finish_reason'') \<rparr>
                     else a1)
           in if truthy (opt_get data ''usage'')
              then a2\<lparr> promptTokens := js_or (opt_get (opt_get data ''usage'') ''prompt_tokens'') (JNum 0),
                       completionTokens :=
                         js_or (opt_get (opt_get data ''usage'') ''completion_tokens'') (JNum 0) \<rparr>
              else a2))"

text \<open>The loop over the lines of one chunk; \<open>[DONE]\<close> breaks out of this loop only.\<close>

fun aggregate_lines ::
  "(string \<Rightarrow> json option) \<Rightarrow> (real \<Rightarrow> string) \<Rightarrow> string list \<Rightarrow> aggregate \<Rightarrow> aggregate" where
  "aggregate_lines parse numstr [] a = a"
| "aggregate_lines parse numstr (line # lines) a =
     (if \<not> startsWith line ''data: '' then aggregate_lines parse numstr lines a
      else if drop 6 line = ''[DONE]'' then a
      else (case parse (drop 6 line) of
              None \<Rightarrow> aggregate_lines parse numstr lines a
            | Some data \<Rightarrow> aggregate_lines parse numstr lines (aggregate_data numstr data a)))"

fun aggregate_loop ::
  "(string \<Rightarrow> string) \<Rightarrow> (string \<Rightarrow> json option) \<Rightarrow> (real \<Rightarrow> string) \<Rightarrow> string list \<Rightarrow> string \<Rightarrow>
   aggregate \<Rightarrow> aggregate" where
  "aggregate_loop decode parse numstr [] buffer a = a"
| "aggregate_loop decode parse numstr (chunk # chunks) buffer a =
     (let lines = split_newline (buffer @ decode chunk)
      in aggregate_loop decode parse numstr chunks (last lines)
           (aggregate_lines parse numstr (butlast lines) a))"

datatype response_block = TextContent string

record anthropic_response =
  resp_id :: string
  resp_type :: string
  resp_role :: string
  resp_content :: "response_block list"
  resp_model :: string
  stop_reason :: json
  input_tokens :: json
  output_tokens :: json

definition aggregate_response ::
  "(string \<Rightarrow> string) \<Rightarrow> (string \<Rightarrow> json option) \<Rightarrow> (real \<Rightarrow> string) \<Rightarrow> string list \<Rightarrow> string \<Rightarrow>
   string \<Rightarrow> anthropic_response" where
  "aggregate_response decode parse numstr upstream messageId modelName =
     (let a = aggregate_loop decode parse numstr upstream []
                \<lparr> fullContent = [], finishReason = JStr ''end_turn'',
                  promptTokens = JNum 0, completionTokens = JNum 0 \<rparr>
      in \<lparr> resp_id = messageId, resp_type = ''message'', resp_role = ''assistant'',
           resp_content = [TextContent (fullContent a)], resp_model = modelName,
           stop_reason = finishReason a,
           input_tokens = promptTokens a, output_tokens = completionTokens a \<rparr>)"

section \<open>Reading a stream as its lines\<close>

text \<open>
  The complete (newline-terminated) lines of a text, a \<open>[DONE]\<close> line, and the parsed
  payload of a data line: the vocabulary in which the behaviour of the two stream
  loops is stated.
\<close>

definition complete_lines :: "string \<Rightarrow> string list" where
  "complete_lines text = butlast (split_newline text)"

definition is_done :: "string \<Rightarrow> bool" where
  "is_done line = (startsWith line ''data: '' \<and> drop 6 line = ''[DONE]'')"


text \<open>
  \<open>choices[0]\<close> of a parsed payload, \<open>None\<close> when the payload is \<open>null\<close> (the read
  throws and the line is skipped).
\<close>

definition first_choice :: "json \<Rightarrow> json option" where
  "first_choice data =
     (case get_prop data ''choices'' of
        None \<Rightarrow> None
      | Some choices \<Rightarrow> Some (if nullish choices then JUndefined else opt_index0 choices))"






section \<open>Configuration (config.ts)\<close>

record oca_config =
  client_id :: string
  oca_idcs_url :: string
  scopes :: string
  oca_base_url :: string

text \<open>\<open>OCA_CONFIG\<close>, built from the user's configuration file.\<close>

definition OCA_CONFIG :: "ProxyConfig \<Rightarrow> oca_config" where
  "OCA_CONFIG userConfig =
     \<lparr> client_id = ''a8331954c0cf48ba99b5dd223a14c6ea'',
       oca_idcs_url = str_or (idcs_url userConfig)
         ''https://idcs-9dc693e80d9b469480d7afe00e743931.identity.oraclecloud.com'',
       scopes = ''openid offline_access'',
       oca_base_url = str_or (base_url userConfig)
         ''https://code-internal.aiservice.us-chicago-1.oci.oraclecloud.com/20250206/app/litellm'' \<rparr>"

section \<open>PKCE sessions (auth.ts)\<close>

text \<open>
  \<open>Buffer.toString("base64url")\<close>: base64 with the URL-safe alphabet and no padding
  (RFC 4648, section 5).
\<close>

definition b64url_alphabet :: string where
  "b64url_alphabet = ''ABCDEFGHIJKLMNOPQRSTUVWXYZabcdefghijklmnopqrstuvwxyz0123456789-_''"

definition b64 :: "nat \<Rightarrow> char" where
  "b64 n = b64url_alphabet ! (n mod 64)"

fun base64url :: "string \<Rightarrow> string" where
  "base64url (a # b # c # rest) =
     (let n = (of_char a :: nat) * 65536 + of_char b * 256 + of_char c
      in b64 (n div 262144) # b64 (n div 4096) # b64 (n div 64) # b64 n # base64url rest)"
| "base64url [a, b] =
     (let n = (of_char a :: nat) * 1024 + of_char b * 4
      in [b64 (n div 4096), b64 (n div 64), b64 n])"
| "base64url [a] =
     (let n = (of_char a :: nat) * 16 in [b64 (n div 64), b64 n])"
| "base64url [] = []"

text \<open>
  \<open>crypto.randomBytes(n)\<close> takes the next \<open>n\<close> bytes of the system's entropy, an
  unbounded supply of bytes.
\<close>

type_synonym entropy = "nat \<Rightarrow> char"

definition randomBytes :: "nat \<Rightarrow> entropy \<Rightarrow> string \<times> entropy" where
  "randomBytes n e = (map e [0..<n], \<lambda>i. e (i + n))"

definition generateCodeVerifier :: "entropy \<Rightarrow> string \<times> entropy" where
  "generateCodeVerifier e = (let (bytes, e') = randomBytes 96 e in (base64url bytes, e'))"

text \<open>The hash function is the platform's SHA-256, the parameter \<open>sha256\<close>.\<close>

definition generateCodeChallenge :: "(string \<Rightarrow> string) \<Rightarrow> string \<Rightarrow> string" where
  "generateCodeChallenge sha256 verifier = base64url (sha256 verifier)"

definition generateRandomString :: "nat \<Rightarrow> entropy \<Rightarrow> string \<times> entropy" where
  "generateRandomString len e =
     (let (bytes, e') = randomBytes len e in (take len (base64url bytes), e'))"

record PkceState =
  code_verifier :: string
  nonce :: string
  redirect_uri :: string
  created_at :: int

text \<open>Times are milliseconds, as \<open>Date.now()\<close> gives them.\<close>

definition cleanupExpiredStates :: "int \<Rightarrow> (string \<rightharpoonup> PkceState) \<Rightarrow> (string \<rightharpoonup> PkceState)" where
  "cleanupExpiredStates now pkceStates =
     (let cutoff = now - 10 * 60 * 1000
      in (\<lambda>state. case pkceStates state of
                     None \<Rightarrow> None
                   | Some data \<Rightarrow> if created_at data < cutoff then None else Some data))"

definition getPkceState :: "string \<Rightarrow> (string \<rightharpoonup> PkceState) \<Rightarrow> PkceState option" where
  "getPkceState state pkceStates = pkceStates state"

definition removePkceState :: "string \<Rightarrow> (string \<rightharpoonup> PkceState) \<Rightarrow> (string \<rightharpoonup> PkceState)" where
  "removePkceState state pkceStates = pkceStates(state := None)"

section \<open>Token manager (auth.ts)\<close>

text \<open>
  The outcome of an HTTP call made with axios: the response data, or the error it
  rejects with. \<open>err_status\<close> and \<open>err_data\<close> are \<open>err.response?.status\<close> and
  \<open>err.response?.data\<close> (absent for a network error).
\<close>

record axios_error =
  err_status :: "nat option"
  err_data :: json
  err_message :: "string option"

datatype 'a axios_result = Fulfilled 'a | Rejected axios_error

record discovery_document =
  token_endpoint :: "string option"

record token_response =
  access_token :: "string option"
  expires_in :: "int option"
  refresh_token :: "string option"

text \<open>
  The identity provider as the program sees it: the answer to the discovery GET of a
  URL, and the answer to the form POST of parameters to an endpoint.
\<close>

record network =
  http_get :: "string \<Rightarrow> discovery_document axios_result"
  http_post :: "string option \<Rightarrow> (string \<times> string) list \<Rightarrow> token_response axios_result"

datatype error = Error string

text \<open>
  The fields of the class, and the token file it persists to (\<open>token_file\<close> is the
  refresh token stored in the file, \<open>None\<close> when there is no file; writing and
  deleting the file are taken to succeed). \<open>refreshPromise\<close> is the handle of the
  refresh in flight.
\<close>

record TokenManager =
  refreshToken :: "string option"
  accessToken :: "string option"
  tokenExpiry :: "int option"
  refreshPromise :: "nat option"
  token_file :: "string option"

definition falsy_str :: "string option \<Rightarrow> bool" where
  "falsy_str s = (s = None \<or> s = Some [])"

definition isAuthenticated :: "TokenManager \<Rightarrow> bool" where
  "isAuthenticated tm = (refreshToken tm \<noteq> None)"

definition setRefreshToken :: "string \<Rightarrow> TokenManager \<Rightarrow> TokenManager" where
  "setRefreshToken token tm =
     tm\<lparr> refreshToken := Some token, accessToken := None, tokenExpiry := None,
         token_file := Some token \<rparr>"

definition clearAuth :: "TokenManager \<Rightarrow> TokenManager" where
  "clearAuth tm =
     tm\<lparr> refreshToken := None, accessToken := None, tokenExpiry := None, token_file := None \<rparr>"

text \<open>The \<open>catch\<close> block of doRefreshToken.\<close>

definition refresh_catch :: "axios_error \<Rightarrow> TokenManager \<Rightarrow> (error + string) \<times> TokenManager" where
  "refresh_catch err tm =
     (let dataObj = (if nullish (err_data err) then JObj [] else err_data err)
      in if err_status err = Some 400 \<and>
            (opt_get dataObj ''error'' = JStr ''invalid_grant'' \<or>
             opt_get dataObj ''error'' = JStr ''invalid_token'')
         then (Inl (Error ''Refresh token expired. Please visit /login to re-authenticate.''),
               clearAuth tm)
         else (Inl (Error (''Failed to refresh OCA access token: ''
                           @ str_or (err_message err) ''unknown error'')),
               tm))"

text \<open>
  doRefreshToken, run from its start to the settling of its promise; \<open>now\<close> is the time
  at which the token response arrives. \<open>Inl\<close> is the error the promise rejects with.
\<close>

definition doRefreshToken ::
  "oca_config \<Rightarrow> network \<Rightarrow> int \<Rightarrow> TokenManager \<Rightarrow> (error + string) \<times> TokenManager" where
  "doRefreshToken config net now tm =
     (case http_get net (oca_idcs_url config @ ''/.well-known/openid-configuration'') of
        Rejected err \<Rightarrow> refresh_catch err tm
      | Fulfilled discovery \<Rightarrow>
          if falsy_str (refreshToken tm) then
            refresh_catch \<lparr> err_status = None, err_data = JUndefined,
                            err_message = Some ''Not authenticated. Missing refresh token.'' \<rparr> tm
          else
            (case http_post net (token_endpoint discovery)
                    [(''grant_type'', ''refresh_token''),
                     (''refresh_token'', the (refreshToken tm)),
                     (''client_id'', client_id config)] of
               Rejected err \<Rightarrow> refresh_catch err tm
             | Fulfilled response \<Rightarrow>
                 (let expiresIn = (case expires_in response of
                                     None \<Rightarrow> 3600
                                   | Some n \<Rightarrow> if n = 0 then 3600 else n);
                      tm1 = tm\<lparr> accessToken := access_token response,
                                 tokenExpiry := Some (now + expiresIn * 1000) \<rparr>;
                      tm2 = (if \<not> falsy_str (refresh_token response)
                                \<and> refresh_token response \<noteq> refreshToken tm1
                             then tm1\<lparr> refreshToken := refresh_token response,
                                       token_file := refresh_token response \<rparr>
                             else tm1)
                  in (Inr (str_or (accessToken tm2) []), tm2))))"

text \<open>
  The cache test of getToken: an access token is held and its expiry is more than 300
  seconds after \<open>now\<close>.
\<close>

definition cached_token_valid :: "int \<Rightarrow> TokenManager \<Rightarrow> bool" where
  "cached_token_valid now tm =
     (\<not> falsy_str (accessToken tm) \<and>
      (case tokenExpiry tm of
         None \<Rightarrow> False
       | Some expiry \<Rightarrow> real_of_int (expiry - now) / 1000 > 300))"

text \<open>
  getToken is asynchronous. The program runs on one thread: a call of getToken runs
  without interruption up to its first \<open>await\<close>, and other calls run only while it
  waits. The part before the \<open>await\<close> either throws, or returns the cached token, or
  hands back the promise of the refresh in flight, or starts doRefreshToken, stores its
  promise in \<open>refreshPromise\<close> and waits for it. \<open>refresh_calls\<close> counts the calls of
  doRefreshToken, each of which sends the refresh to the network; the count also names
  the promise of the call.
\<close>

datatype get_token_outcome =
    Threw error
  | Returned string
  | Awaiting nat

record token_service =
  manager :: TokenManager
  refresh_calls :: nat

definition getToken :: "int \<Rightarrow> token_service \<Rightarrow> get_token_outcome \<times> token_service" where
  "getToken now srv =
     (if falsy_str (refreshToken (manager srv)) then
        (Threw (Error ''Not authenticated. Please visit /login to authenticate with OCA.''), srv)
      else if cached_token_valid now (manager srv) then
        (Returned (str_or (accessToken (manager srv)) []), srv)
      else
        (case refreshPromise (manager srv) of
           Some p \<Rightarrow> (Awaiting p, srv)
         | None \<Rightarrow>
             (Awaiting (refresh_calls srv),
              srv\<lparr> manager := (manager srv)\<lparr> refreshPromise := Some (refresh_calls srv) \<rparr>,
                   refresh_calls := refresh_calls srv + 1 \<rparr>)))"

text \<open>Calls of getToken made one after the other, at the given times, while the refresh is pending.\<close>

fun getToken_calls :: "int list \<Rightarrow> token_service \<Rightarrow> get_token_outcome list \<times> token_service" where
  "getToken_calls [] srv = ([], srv)"
| "getToken_calls (now # nows) srv =
     (let (outcome, srv') = getToken now srv;
          (outcomes, srv'') = getToken_calls nows srv'
      in (outcome # outcomes, srv''))"

text \<open>
  The refresh in flight settles: doRefreshToken finishes with its result, and the
  \<open>finally\<close> block of the call that started it clears \<open>refreshPromise\<close>.
\<close>

definition settle_refresh ::
  "oca_config \<Rightarrow> network \<Rightarrow> int \<Rightarrow> token_service \<Rightarrow> (error + string) \<times> token_service" where
  "settle_refresh config net now srv =
     (let (result, tm) = doRefreshToken config net now (manager srv)
      in (result, srv\<lparr> manager := tm\<lparr> refreshPromise := None \<rparr> \<rparr>))"

text \<open>What a caller of getToken receives once the promise \<open>p\<close> has settled with \<open>result\<close>.\<close>

fun received :: "nat \<Rightarrow> (error + string) \<Rightarrow> get_token_outcome \<Rightarrow> (error + string) option" where
  "received p result (Threw e) = Some (Inl e)"
| "received p result (Returned token) = Some (Inr token)"
| "received p result (Awaiting q) = (if q = p then Some result else None)"

section \<open>Login and callback (index.ts, auth.ts)\<close>

text \<open>
  The state of the server that the login flow touches: the clock that \<open>Date.now()\<close>
  reads, the session table, the token manager and the entropy supply.
\<close>

record server =
  clock :: int
  pkceStates :: "string \<rightharpoonup> PkceState"
  tokenMgr :: TokenManager
  entropy_supply :: entropy

text \<open>
  createAuthUrl. \<open>urlencode\<close> is \<open>URLSearchParams.prototype.toString\<close>. The result is
  the URL and the new state of the server.
\<close>

definition createAuthUrl ::
  "oca_config \<Rightarrow> (string \<Rightarrow> string) \<Rightarrow> ((string \<times> string) list \<Rightarrow> string) \<Rightarrow> string \<Rightarrow> server \<Rightarrow>
   string \<times> server" where
  "createAuthUrl config sha256 urlencode redirectUri srv =
     (let swept = cleanupExpiredStates (clock srv) (pkceStates srv);
          (codeVerifier, e1) = generateCodeVerifier (entropy_supply srv);
          codeChallenge = generateCodeChallenge sha256 codeVerifier;
          (state, e2) = generateRandomString 32 e1;
          (nonce', e3) = generateRandomString 32 e2;
          params = [(''client_id'', client_id config),
                    (''response_type'', ''code''),
                    (''scope'', scopes config),
                    (''redirect_uri'', redirectUri),
                    (''state'', state),
                    (''nonce'', nonce'),
                    (''code_challenge'', codeChallenge),
                    (''code_challenge_method'', ''S256'')]
      in (oca_idcs_url config @ ''/oauth2/v1/authorize?'' @ urlencode params,
          srv\<lparr> pkceStates :=
                 swept(state \<mapsto> \<lparr> code_verifier = codeVerifier, nonce = nonce',
                                   redirect_uri = redirectUri, created_at = clock srv \<rparr>),
               entropy_supply := e3 \<rparr>))"

text \<open>exchangeCodeForTokens: \<open>Inl\<close> is the error of the call that failed.\<close>

definition exchangeCodeForTokens ::
  "oca_config \<Rightarrow> network \<Rightarrow> string \<Rightarrow> string \<Rightarrow> string \<Rightarrow> axios_error + token_response" where
  "exchangeCodeForTokens config net code codeVerifier redirectUri =
     (case http_get net (oca_idcs_url config @ ''/.well-known/openid-configuration'') of
        Rejected err \<Rightarrow> Inl err
      | Fulfilled discovery \<Rightarrow>
          (case http_post net (token_endpoint discovery)
                  [(''grant_type'', ''authorization_code''),
                   (''code'', code),
                   (''redirect_uri'', redirectUri),
                   (''client_id'', client_id config),
                   (''code_verifier'', codeVerifier)] of
             Rejected err \<Rightarrow> Inl err
           | Fulfilled response \<Rightarrow>
               Inr (response\<lparr> expires_in :=
                      Some (case expires_in response of
                              None \<Rightarrow> 3600
                            | Some n \<Rightarrow> if n = 0 then 3600 else n) \<rparr>)))"

text \<open>
  The handler of \<open>GET /callback\<close>. Its answers, by status and page: the OAuth error
  page (400), the missing-parameter page (400), the invalid-or-expired-state page
  (400), the no-refresh-token page (500), the exchange-failed page (500) and the
  success page (200).
\<close>

record callback_query =
  q_code :: "string option"
  q_state :: "string option"
  q_error :: "string option"

datatype callback_response =
    OAuthError string
  | InvalidCallback
  | InvalidOrExpiredState
  | NoRefreshToken
  | TokenExchangeFailed axios_error
  | LoginSuccessful

definition callback_handler ::
  "oca_config \<Rightarrow> network \<Rightarrow> callback_query \<Rightarrow> server \<Rightarrow> callback_response \<times> server" where
  "callback_handler config net query srv =
     (if \<not> falsy_str (q_error query) then (OAuthError (the (q_error query)), srv)
      else if falsy_str (q_code query) \<or> falsy_str (q_state query) then (InvalidCallback, srv)
      else
        (case getPkceState (the (q_state query)) (pkceStates srv) of
           None \<Rightarrow> (InvalidOrExpiredState, srv)
         | Some pkceData \<Rightarrow>
             (let srv1 = srv\<lparr> pkceStates := removePkceState (the (q_state query)) (pkceStates srv) \<rparr>
              in case exchangeCodeForTokens config net (the (q_code query))
                        (code_verifier pkceData) (redirect_uri pkceData) of
                   Inl err \<Rightarrow> (TokenExchangeFailed err, srv1)
                 | Inr tokens \<Rightarrow>
                     if falsy_str (refresh_token tokens) then (NoRefreshToken, srv1)
                     else (LoginSuccessful,
                           srv1\<lparr> tokenMgr :=
                                   setRefreshToken (the (refresh_token tokens)) (tokenMgr srv1) \<rparr>))))"

text \<open>Time passes.\<close>

definition advance_clock :: "int \<Rightarrow> server \<Rightarrow> server" where
  "advance_clock ms srv = srv\<lparr> clock := clock srv + ms \<rparr>"

section \<open>Model resolution: theorems\<close>

text \<open>
  Claim C8, as the code has it. A model name with the prefix \<open>oca/\<close> passes through
  with no reasoning effort. Otherwise an entry of the mapping table that is a non-empty
  string gives that string as the model and no reasoning effort, and an entry that is an
  object gives its target and its reasoning effort. Otherwise, when the table has no
  entry for the name and the name is not one that \<open>Object.prototype\<close> defines, or when
  the entry is the empty string (\<open>if (mapping)\<close> is false for it), the result is the
  default model of the configuration with its default reasoning effort, and the default
  model is \<open>oca/gpt-4.1\<close> when none or an empty one is configured. (A name that has no
  entry and that \<open>Object.prototype\<close> defines is left out of the statement.)
\<close>

theorem resolveModelMapping_three_steps:
  "(startsWith rq ''oca/'' \<longrightarrow>
      resolveModelMapping cfg rq = \<lparr> model = Some rq, reasoning_effort = None \<rparr>) \<and>
   (\<not> startsWith rq ''oca/'' \<longrightarrow>
      (\<forall>m t. model_mapping cfg = Some m \<and> m rq = Some (MapString t) \<and> t \<noteq> [] \<longrightarrow>
           resolveModelMapping cfg rq = \<lparr> model = Some t, reasoning_effort = None \<rparr>) \<and>
      (\<forall>m t e. model_mapping cfg = Some m \<and> m rq = Some (MapObject t e) \<longrightarrow>
           resolveModelMapping cfg rq = \<lparr> model = Some t, reasoning_effort = e \<rparr>) \<and>
      (model_mapping cfg = None \<or>
       (\<exists>m. model_mapping cfg = Some m \<and>
            (m rq = Some (MapString []) \<or>
             (m rq = None \<and> rq \<notin> set Object_prototype_names))) \<longrightarrow>
           resolveModelMapping cfg rq =
             \<lparr> model = Some (case default_model cfg of
                                None \<Rightarrow> ''oca/gpt-4.1''
                              | Some d \<Rightarrow> if d = [] then ''oca/gpt-4.1'' else d),
               reasoning_effort = default_reasoning_effort cfg \<rparr>))"
  by (auto simp: resolveModelMapping_def mapping_lookup_def str_or_def DEFAULT_OCA_MODEL_def
           split: option.splits ModelMapping.splits)

text \<open>
  The four cases at concrete inputs, with the configuration the program loads from a
  file: a prefixed name, a string entry, an object entry and a name with no entry.
\<close>

theorem resolveModelMapping_three_steps_witness:
  "resolveModelMapping
     (loadProxyConfig
        \<lparr> log_level = None,
          model_mapping = Some [''gpt-4'' \<mapsto> MapString ''oca/gpt-5'',
                                ''o3'' \<mapsto> MapObject ''oca/o3'' (Some ''high'')],
          default_model = None, default_reasoning_effort = Some ''low'',
          base_url = None, idcs_url = None, port = None \<rparr>) ''oca/gpt-4.1''
     = \<lparr> model = Some ''oca/gpt-4.1'', reasoning_effort = None \<rparr>
   \<and> resolveModelMapping
     (loadProxyConfig
        \<lparr> log_level = None,
          model_mapping = Some [''gpt-4'' \<mapsto> MapString ''oca/gpt-5'',
                                ''o3'' \<mapsto> MapObject ''oca/o3'' (Some ''high'')],
          default_model = None, default_reasoning_effort = Some ''low'',
          base_url = None, idcs_url = None, port = None \<rparr>) ''gpt-4''
     = \<lparr> model = Some ''oca/gpt-5'', reasoning_effort = None \<rparr>
   \<and> resolveModelMapping
     (loadProxyConfig
        \<lparr> log_level = None,
          model_mapping = Some [''gpt-4'' \<mapsto> MapString ''oca/gpt-5'',
                                ''o3'' \<mapsto> MapObject ''oca/o3'' (Some ''high'')],
          default_model = None, default_reasoning_effort = Some ''low'',
          base_url = None, idcs_url = None, port = None \<rparr>) ''o3''
     = \<lparr> model = Some ''oca/o3'', reasoning_effort = Some ''high'' \<rparr>
   \<and> resolveModelMapping
     (loadProxyConfig
        \<lparr> log_level = None,
          model_mapping = Some [''gpt-4'' \<mapsto> MapString ''oca/gpt-5'',
                                ''o3'' \<mapsto> MapObject ''oca/o3'' (Some ''high'')],
          default_model = None, default_reasoning_effort = Some ''low'',
          base_url = None, idcs_url = None, port = None \<rparr>) ''claude-3''
     = \<lparr> model = Some ''oca/gpt-4.1'', reasoning_effort = None \<rparr>"
  using
    resolveModelMapping_three_steps [of "''oca/gpt-4.1''"
      "(loadProxyConfig
        \<lparr> log_level = None,
          model_mapping = Some [''gpt-4'' \<mapsto> MapString ''oca/gpt-5'',
                                ''o3'' \<mapsto> MapObject ''oca/o3'' (Some ''high'')],
          default_model = None, default_reasoning_effort = Some ''low'',
          base_url = None, idcs_url = None, port = None \<rparr>)"]
    resolveModelMapping_three_steps [of "''gpt-4''"
      "(loadProxyConfig
        \<lparr> log_level = None,
          model_mapping = Some [''gpt-4'' \<mapsto> MapString ''oca/gpt-5'',
                                ''o3'' \<mapsto> MapObject ''oca/o3'' (Some ''high'')],
          default_model = None, default_reasoning_effort = Some ''low'',
          base_url = None, idcs_url = None, port = None \<rparr>)"]
    resolveModelMapping_three_steps [of "''o3''"
      "(loadProxyConfig
        \<lparr> log_level = None,
          model_mapping = Some [''gpt-4'' \<mapsto> MapString ''oca/gpt-5'',
                                ''o3'' \<mapsto> MapObject ''oca/o3'' (Some ''high'')],
          default_model = None, default_reasoning_effort = Some ''low'',
          base_url = None, idcs_url = None, port = None \<rparr>)"]
    resolveModelMapping_three_steps [of "''claude-3''"
      "(loadProxyConfig
        \<lparr> log_level = None,
          model_mapping = Some [''gpt-4'' \<mapsto> MapString ''oca/gpt-5'',
                                ''o3'' \<mapsto> MapObject ''oca/o3'' (Some ''high'')],
          default_model = None, default_reasoning_effort = Some ''low'',
          base_url = None, idcs_url = None, port = None \<rparr>)"]
  by (simp add: startsWith_def loadProxyConfig_def Object_prototype_names_def)

text \<open>
  Claim C8 as stated fails for an entry that is the empty string: in the configuration
  loaded from a file that maps \<open>gpt-4\<close> to \<open>""\<close>, the model \<open>gpt-4\<close> is found in the
  table and the result is the configured default, not the entry's target.
\<close>

theorem resolveModelMapping_empty_entry_counterexample:
  "mapping_lookup
     (loadProxyConfig
        \<lparr> log_level = None, model_mapping = Some [''gpt-4'' \<mapsto> MapString []],
          default_model = Some ''oca/gpt-5'', default_reasoning_effort = None,
          base_url = None, idcs_url = None, port = None \<rparr>) ''gpt-4'' = Some (Entry (MapString []))
   \<and> resolveModelMapping
     (loadProxyConfig
        \<lparr> log_level = None, model_mapping = Some [''gpt-4'' \<mapsto> MapString []],
          default_model = Some ''oca/gpt-5'', default_reasoning_effort = None,
          base_url = None, idcs_url = None, port = None \<rparr>) ''gpt-4''
     = \<lparr> model = Some ''oca/gpt-5'', reasoning_effort = None \<rparr>
   \<and> resolveModelMapping
     (loadProxyConfig
        \<lparr> log_level = None, model_mapping = Some [''gpt-4'' \<mapsto> MapString []],
          default_model = Some ''oca/gpt-5'', default_reasoning_effort = None,
          base_url = None, idcs_url = None, port = None \<rparr>) ''gpt-4''
     \<noteq> \<lparr> model = Some [], reasoning_effort = None \<rparr>"
  by (simp add: resolveModelMapping_def mapping_lookup_def str_or_def startsWith_def
                loadProxyConfig_def)

text \<open>
  A name that the table has no entry for and that \<open>Object.prototype\<close> defines is found
  through the prototype: the result has no model at all (\<open>mapping.target\<close> is
  \<open>undefined\<close>), not the default. So it is for \<open>constructor\<close>.
\<close>

lemma resolveModelMapping_prototype_member:
  "\<not> startsWith rq ''oca/'' \<Longrightarrow> model_mapping cfg = Some m \<Longrightarrow> m rq = None \<Longrightarrow>
   rq \<in> set Object_prototype_names \<Longrightarrow>
   resolveModelMapping cfg rq = \<lparr> model = None, reasoning_effort = None \<rparr>"
  by (simp add: resolveModelMapping_def mapping_lookup_def)

lemma resolveModelMapping_constructor:
  "resolveModelMapping
     (loadProxyConfig
        \<lparr> log_level = None,
          model_mapping = Some [''gpt-4'' \<mapsto> MapString ''oca/gpt-5'',
                                ''o3'' \<mapsto> MapObject ''oca/o3'' (Some ''high'')],
          default_model = None, default_reasoning_effort = Some ''low'',
          base_url = None, idcs_url = None, port = None \<rparr>) ''constructor''
     = \<lparr> model = None, reasoning_effort = None \<rparr>"
  by (simp add: resolveModelMapping_def mapping_lookup_def startsWith_def loadProxyConfig_def
                Object_prototype_names_def)

text \<open>
  The configuration loaded at start-up has no default reasoning effort, whatever the
  file says: loadProxyConfig does not copy the field. With it a model that falls to the
  default is resolved without reasoning effort.
\<close>

lemma loadProxyConfig_default_reasoning_effort:
  "default_reasoning_effort (loadProxyConfig cfg) = None"
  by (simp add: loadProxyConfig_def)

section \<open>Request transcoding: theorems\<close>

text \<open>
  Claim C9, as the code has it. When anthropicToOpenAI returns a request: a non-zero
  \<open>max_tokens\<close> of the body gives \<open>min(max_tokens, 16384)\<close>; a body with no
  \<open>max_tokens\<close>, or with \<open>max_tokens\<close> 0 (\<open>if (body.max_tokens)\<close> is false for it),
  gives a request without \<open>max_tokens\<close>; and no request carries a \<open>max_tokens\<close>
  above 16384.
\<close>

theorem anthropicToOpenAI_max_tokens:
  "anthropicToOpenAI cfg stringify numstr body = Some req \<Longrightarrow>
     (\<forall>m. max_tokens body = Some m \<and> m \<noteq> 0 \<longrightarrow> req_max_tokens req = Some (min m 16384)) \<and>
     (max_tokens body = None \<or> max_tokens body = Some 0 \<longrightarrow> req_max_tokens req = None) \<and>
     (\<forall>k. req_max_tokens req = Some k \<longrightarrow> k \<le> 16384)"
  by (auto simp: anthropicToOpenAI_def Let_def split: option.splits if_splits)

text \<open>A body with \<open>max_tokens: 50000\<close> is transcoded, with \<open>max_tokens\<close> 16384.\<close>

theorem anthropicToOpenAI_max_tokens_witness:
  "map_option req_max_tokens
     (anthropicToOpenAI
     \<lparr> log_level = None, model_mapping = None, default_model = None,
       default_reasoning_effort = None, base_url = None, idcs_url = None, port = None \<rparr>
     (\<lambda>v. []) (\<lambda>n. [])
     \<lparr> system = JUndefined,
       messages = Some [\<lparr> role = ''user'', content = JStr ''hi'' \<rparr>],
       body_model = None, tools = None, tool_choice = JUndefined,
       max_tokens = Some 50000, temperature = None, top_p = None \<rparr>)
   = Some (Some 16384)"
proof -
  obtain req where e:
    "anthropicToOpenAI
     \<lparr> log_level = None, model_mapping = None, default_model = None,
       default_reasoning_effort = None, base_url = None, idcs_url = None, port = None \<rparr>
     (\<lambda>v. []) (\<lambda>n. [])
     \<lparr> system = JUndefined,
       messages = Some [\<lparr> role = ''user'', content = JStr ''hi'' \<rparr>],
       body_model = None, tools = None, tool_choice = JUndefined,
       max_tokens = Some 50000, temperature = None, top_p = None \<rparr> = Some req"
    by (simp add: anthropicToOpenAI_def system_message_def Let_def)
  from anthropicToOpenAI_max_tokens [OF e] have "req_max_tokens req = Some 16384"
    by simp
  with e show ?thesis by simp
qed

text \<open>
  Claim C9 as stated fails for \<open>max_tokens: 0\<close>: the transcoded request carries no
  \<open>max_tokens\<close>, not \<open>min(0, 16384) = 0\<close>.
\<close>

theorem anthropicToOpenAI_max_tokens_zero_counterexample:
  "map_option req_max_tokens
     (anthropicToOpenAI
     \<lparr> log_level = None, model_mapping = None, default_model = None,
       default_reasoning_effort = None, base_url = None, idcs_url = None, port = None \<rparr>
     (\<lambda>v. []) (\<lambda>n. [])
     \<lparr> system = JUndefined,
       messages = Some [\<lparr> role = ''user'', content = JStr ''hi'' \<rparr>],
       body_model = None, tools = None, tool_choice = JUndefined,
       max_tokens = Some 0, temperature = None, top_p = None \<rparr>)
   = Some None
   \<and> map_option req_max_tokens
     (anthropicToOpenAI
     \<lparr> log_level = None, model_mapping = None, default_model = None,
       default_reasoning_effort = None, base_url = None, idcs_url = None, port = None \<rparr>
     (\<lambda>v. []) (\<lambda>n. [])
     \<lparr> system = JUndefined,
       messages = Some [\<lparr> role = ''user'', content = JStr ''hi'' \<rparr>],
       body_model = None, tools = None, tool_choice = JUndefined,
       max_tokens = Some 0, temperature = None, top_p = None \<rparr>)
   \<noteq> Some (Some (min 0 16384))"
  by (simp add: anthropicToOpenAI_def system_message_def Let_def)

section \<open>Stream loops: lines and chunks\<close>

text \<open>
  Splitting at newlines distributes over appending a chunk: the complete lines of
  \<open>a @ b\<close> are those of \<open>a\<close> followed by those of the unfinished last piece of
  \<open>a\<close> extended by \<open>b\<close>. This is what carrying the buffer implements.
\<close>

lemma split_newline_not_Nil: "split_newline s \<noteq> []"
  by (induction s) (auto split: list.splits)

lemma split_newline_append:
  "split_newline (a @ b) = butlast (split_newline a) @ split_newline (last (split_newline a) @ b)"
proof (induction a)
  case Nil
  show ?case by simp
next
  case (Cons c cs)
  obtain l ls where s: "split_newline cs = l # ls"
    using split_newline_not_Nil [of cs] by (cases "split_newline cs") auto
  obtain l' ls' where s': "split_newline (cs @ b) = l' # ls'"
    using split_newline_not_Nil [of "cs @ b"] by (cases "split_newline (cs @ b)") auto
  show ?case
  proof (cases "c = CHR 0x0A")
    case True
    with Cons s show ?thesis by simp
  next
    case False
    show ?thesis
    proof (cases ls)
      case Nil
      with Cons s s' False show ?thesis by simp
    next
      case (Cons m ms)
      with Cons.IH s s' False show ?thesis by (auto split: list.splits)
    qed
  qed
qed

lemma last_split_newline_no_newline: "CHR 0x0A \<notin> set (last (split_newline s))"
proof (induction s)
  case Nil
  show ?case by simp
next
  case (Cons c cs)
  obtain l ls where s: "split_newline cs = l # ls"
    using split_newline_not_Nil [of cs] by (cases "split_newline cs") auto
  with Cons show ?case by (cases ls) auto
qed

lemma split_newline_no_newline: "CHR 0x0A \<notin> set s \<Longrightarrow> split_newline s = [s]"
  by (induction s) auto

lemma complete_lines_append:
  "complete_lines (a @ b) = complete_lines a @ complete_lines (last (split_newline a) @ b)"
  unfolding complete_lines_def
  by (simp add: split_newline_append [of a b] butlast_append split_newline_not_Nil)

text \<open>
  The streaming loop over the chunks yields what one pass over the complete lines of
  the decoded text yields: its output depends on the chunks only through the
  concatenation of the decoded chunks.
\<close>

lemma process_lines_append:
  "process_lines parse (xs @ ys) st =
     (let (e1, s1, r1) = process_lines parse xs st in
      if r1 then (e1, s1, True)
      else (let (e2, s2, r2) = process_lines parse ys s1 in (e1 @ e2, s2, r2)))"
  by (induction xs arbitrary: st) (auto split: prod.splits)

lemma stream_loop_lines:
  "CHR 0x0A \<notin> set buffer \<Longrightarrow>
   stream_loop decode parse chunks buffer st =
     fst (process_lines parse (complete_lines (buffer @ concat (map decode chunks))) st)"
proof (induction chunks arbitrary: buffer st)
  case Nil
  then show ?case by (simp add: complete_lines_def split_newline_no_newline)
next
  case (Cons chunk chunks)
  have eq: "complete_lines (buffer @ concat (map decode (chunk # chunks))) =
      complete_lines (buffer @ decode chunk)
      @ complete_lines (last (split_newline (buffer @ decode chunk)) @ concat (map decode chunks))"
    using complete_lines_append [of "buffer @ decode chunk" "concat (map decode chunks)"] by simp
  have ih: "stream_loop decode parse chunks (last (split_newline (buffer @ decode chunk))) s =
      fst (process_lines parse
             (complete_lines (last (split_newline (buffer @ decode chunk)) @ concat (map decode chunks))) s)"
    for s
    by (rule Cons.IH) (rule last_split_newline_no_newline)
  show ?case
    unfolding eq process_lines_append
    by (simp add: ih complete_lines_def Let_def split: prod.splits)
qed

lemma chunking_invariance:
  "concat (map decode chunks1) = concat (map decode chunks2) \<Longrightarrow>
   streamAnthropicResponse decode parse chunks1 messageId modelName =
   streamAnthropicResponse decode parse chunks2 messageId modelName"
  by (simp add: streamAnthropicResponse_def stream_loop_lines)

lemma utf8_decode_ascii:
  "list_all (\<lambda>b. (of_char b :: nat) \<le> 0x7F) bs \<Longrightarrow> utf8_decode [] 0 0x80 0xBF bs = bs"
  by (induction bs) auto

lemma utf8_toString_ascii:
  "list_all (\<lambda>b. (of_char b :: nat) \<le> 0x7F) bs \<Longrightarrow> utf8_toString bs = bs"
  by (simp add: utf8_toString_def utf8_decode_ascii)

lemma concat_utf8_toString_ascii:
  "list_all (list_all (\<lambda>b. (of_char b :: nat) \<le> 0x7F)) chunks \<Longrightarrow>
   concat (map utf8_toString chunks) = concat chunks"
  by (induction chunks) (auto simp: utf8_toString_ascii)

text \<open>
  For a byte stream of ASCII characters the per-chunk decoding is the identity, and
  every way of cutting the stream into chunks gives the same events.
\<close>

lemma ascii_chunking_invariance:
  "list_all (list_all (\<lambda>b. (of_char b :: nat) \<le> 0x7F)) chunks1 \<Longrightarrow>
   list_all (list_all (\<lambda>b. (of_char b :: nat) \<le> 0x7F)) chunks2 \<Longrightarrow>
   concat chunks1 = concat chunks2 \<Longrightarrow>
   streamAnthropicResponse utf8_toString parse chunks1 messageId modelName =
   streamAnthropicResponse utf8_toString parse chunks2 messageId modelName"
  by (rule chunking_invariance) (simp add: concat_utf8_toString_ascii)

section \<open>Streaming transcoder: theorems\<close>

text \<open>
  The generator returns on a \<open>[DONE]\<close> line only: after the events of a finish
  reason it goes on reading lines.
\<close>

lemma is_done_iff: "is_done line = (line = ''data: [DONE]'')"
proof
  assume "is_done line"
  then have t: "take 6 line = ''data: ''" and d: "drop 6 line = ''[DONE]''"
    by (simp_all add: is_done_def startsWith_def eval_nat_numeral)
  have "line = take 6 line @ drop 6 line" by simp
  also have "\<dots> = ''data: '' @ ''[DONE]''" by (simp only: t d)
  finally show "line = ''data: [DONE]''" by simp
next
  assume "line = ''data: [DONE]''"
  then show "is_done line" by (simp add: is_done_def startsWith_def)
qed

lemma process_line_returns_iff_done:
  "snd (snd (process_line parse line st)) = is_done line"
proof (cases "line = ''data: [DONE]''")
  case True
  then show ?thesis by (simp add: process_line_def is_done_iff startsWith_def)
next
  case False
  then have "\<not> is_done line" by (simp add: is_done_iff)
  then show ?thesis
    by (auto simp: process_line_def is_done_def Let_def split: option.splits prod.splits)
qed

text \<open>
  A chunk with a finish reason, whose earlier part did not throw, ends with
  \<open>content_block_stop\<close> at the current index, \<open>message_delta\<close> with the translated
  reason and the \<open>completion_tokens\<close> of the usage of this same chunk (0 when it has
  none), and \<open>message_stop\<close>.
\<close>

lemma handle_data_finish:
  assumes "get_prop data ''choices'' = Some choices"
    and "choice = (if nullish choices then JUndefined else opt_index0 choices)"
    and "\<not> truthy (opt_get (opt_get choice ''delta'') ''tool_calls'')"
    and "truthy (opt_get choice ''finish_reason'')"
  shows "\<exists>ev. fst (handle_data data st) =
           ev @ [ContentBlockStop (contentBlockIndex st),
                 MessageDelta (map_stop_reason (opt_get choice ''finish_reason''))
                   (js_or (opt_get (js_or (opt_get data ''usage'') (JObj [])) ''completion_tokens'')
                          (JNum 0)),
                 MessageStop]"
  using assms by (auto simp: handle_data_def Let_def)

text \<open>
  Claim C2, evaluated on its input: the chunks with \<open>delta.content = "Hi"\<close>,
  \<open>delta.content = " there"\<close>, \<open>finish_reason = "stop"\<close> and \<open>[DONE]\<close>. For every
  \<open>JSON.parse\<close> that reads the three payloads as the values they denote, the
  transcoder yields the seven events of the claim and then a second
  \<open>message_stop\<close>, the one of the \<open>[DONE]\<close> line.
\<close>

theorem streamAnthropicResponse_hi_there:
  assumes p1: \<open>parse ''{"choices":[{"delta":{"content":"Hi"}}]}'' =
      Some (JObj [(''choices'', JArr [JObj [(''delta'', JObj [(''content'', JStr ''Hi'')])]])])\<close>
    and p2: \<open>parse ''{"choices":[{"delta":{"content":" there"}}]}'' =
      Some (JObj [(''choices'', JArr [JObj [(''delta'', JObj [(''content'', JStr '' there'')])]])])\<close>
    and p3: \<open>parse ''{"choices":[{"delta":{},"finish_reason":"stop"}]}'' =
      Some (JObj [(''choices'', JArr [JObj [(''delta'', JObj []), (''finish_reason'', JStr ''stop'')]])])\<close>
  shows \<open>streamAnthropicResponse utf8_toString parse
     [''data: {"choices":[{"delta":{"content":"Hi"}}]}\<newline>\<newline>'',
      ''data: {"choices":[{"delta":{"content":" there"}}]}\<newline>\<newline>'',
      ''data: {"choices":[{"delta":{},"finish_reason":"stop"}]}\<newline>\<newline>'',
      ''data: [DONE]\<newline>\<newline>''] messageId modelName =
    [MessageStart messageId modelName,
     ContentBlockStart 0 TextBlock,
     ContentBlockDelta 0 (TextDelta (JStr ''Hi'')),
     ContentBlockDelta 0 (TextDelta (JStr '' there'')),
     ContentBlockStop 0,
     MessageDelta (JStr ''end_turn'') (JNum 0),
     MessageStop,
     MessageStop]\<close>
  using p1 p2 p3
  by (simp add: streamAnthropicResponse_def utf8_toString_def REPLACEMENT_def process_line_def startsWith_def
      handle_data_def tool_call_delta_def opt_get_def nullish_def js_or_def map_stop_reason_def Let_def)

theorem streamAnthropicResponse_hi_there_witness:
  \<open>streamAnthropicResponse utf8_toString (\<lambda>s. if s = ''{"choices":[{"delta":{"content":"Hi"}}]}''
          then Some (JObj [(''choices'', JArr [JObj [(''delta'', JObj [(''content'', JStr ''Hi'')])]])])
          else if s = ''{"choices":[{"delta":{"content":" there"}}]}''
          then Some (JObj [(''choices'', JArr [JObj [(''delta'', JObj [(''content'', JStr '' there'')])]])])
          else if s = ''{"choices":[{"delta":{},"finish_reason":"stop"}]}''
          then Some (JObj [(''choices'', JArr [JObj [(''delta'', JObj []), (''finish_reason'', JStr ''stop'')]])])
          else None)
     [''data: {"choices":[{"delta":{"content":"Hi"}}]}\<newline>\<newline>'',
      ''data: {"choices":[{"delta":{"content":" there"}}]}\<newline>\<newline>'',
      ''data: {"choices":[{"delta":{},"finish_reason":"stop"}]}\<newline>\<newline>'',
      ''data: [DONE]\<newline>\<newline>''] ''msg_1'' ''oca/gpt-4.1'' =
    [MessageStart ''msg_1'' ''oca/gpt-4.1'',
     ContentBlockStart 0 TextBlock,
     ContentBlockDelta 0 (TextDelta (JStr ''Hi'')),
     ContentBlockDelta 0 (TextDelta (JStr '' there'')),
     ContentBlockStop 0,
     MessageDelta (JStr ''end_turn'') (JNum 0),
     MessageStop,
     MessageStop]\<close>
  using streamAnthropicResponse_hi_there
    [of \<open>(\<lambda>s. if s = ''{"choices":[{"delta":{"content":"Hi"}}]}''
          then Some (JObj [(''choices'', JArr [JObj [(''delta'', JObj [(''content'', JStr ''Hi'')])]])])
          else if s = ''{"choices":[{"delta":{"content":" there"}}]}''
          then Some (JObj [(''choices'', JArr [JObj [(''delta'', JObj [(''content'', JStr '' there'')])]])])
          else if s = ''{"choices":[{"delta":{},"finish_reason":"stop"}]}''
          then Some (JObj [(''choices'', JArr [JObj [(''delta'', JObj []), (''finish_reason'', JStr ''stop'')]])])
          else None)\<close>
        \<open>''msg_1''\<close> \<open>''oca/gpt-4.1''\<close>]
  by simp

text \<open>
  Claim C4, evaluated where it fails. The text \<open>e-acute\<close> is the two bytes C3 A9.
  The same byte sequence is delivered once as one chunk and once cut between the two
  bytes. Each chunk is decoded by itself, so in the second delivery both halves of the
  character become U+FFFD: the text delta carries two replacement characters instead of
  the original text.
\<close>

theorem streamAnthropicResponse_split_character:
  assumes p1: \<open>parse (''{"choices":[{"delta":{"content":"'' @ [CHR 0xC3] @ [CHR 0xA9] @ ''"}}]}'') =
      Some (JObj [(''choices'', JArr [JObj [(''delta'', JObj [(''content'', JStr ([CHR 0xC3] @ [CHR 0xA9]))])]])])\<close>
    and p2: \<open>parse (''{"choices":[{"delta":{"content":"'' @ [CHR 0xEF] @ [CHR 0xBF] @ [CHR 0xBD] @ [CHR 0xEF] @ [CHR 0xBF] @ [CHR 0xBD] @ ''"}}]}'') =
      Some (JObj [(''choices'', JArr [JObj [(''delta'', JObj [(''content'', JStr ([CHR 0xEF] @ [CHR 0xBF] @ [CHR 0xBD] @ [CHR 0xEF] @ [CHR 0xBF] @ [CHR 0xBD]))])]])])\<close>
  shows \<open>concat [''data: {"choices":[{"delta":{"content":"'' @ [CHR 0xC3],
      [CHR 0xA9] @ ''"}}]}\<newline>\<newline>''] =
     concat [''data: {"choices":[{"delta":{"content":"'' @ [CHR 0xC3] @ [CHR 0xA9] @ ''"}}]}\<newline>\<newline>'']
   \<and> streamAnthropicResponse utf8_toString parse
     [''data: {"choices":[{"delta":{"content":"'' @ [CHR 0xC3] @ [CHR 0xA9] @ ''"}}]}\<newline>\<newline>''] messageId modelName =
    [MessageStart messageId modelName,
     ContentBlockStart 0 TextBlock,
     ContentBlockDelta 0 (TextDelta (JStr ([CHR 0xC3] @ [CHR 0xA9])))]
   \<and> streamAnthropicResponse utf8_toString parse
     [''data: {"choices":[{"delta":{"content":"'' @ [CHR 0xC3],
      [CHR 0xA9] @ ''"}}]}\<newline>\<newline>''] messageId modelName =
    [MessageStart messageId modelName,
     ContentBlockStart 0 TextBlock,
     ContentBlockDelta 0 (TextDelta (JStr ([CHR 0xEF] @ [CHR 0xBF] @ [CHR 0xBD] @ [CHR 0xEF] @ [CHR 0xBF] @ [CHR 0xBD])))]\<close>
  using p1 p2
  by (simp add: streamAnthropicResponse_def utf8_toString_def REPLACEMENT_def process_line_def startsWith_def
      handle_data_def tool_call_delta_def opt_get_def nullish_def js_or_def map_stop_reason_def Let_def)

theorem streamAnthropicResponse_split_character_witness:
  \<open>concat [''data: {"choices":[{"delta":{"content":"'' @ [CHR 0xC3],
      [CHR 0xA9] @ ''"}}]}\<newline>\<newline>''] =
     concat [''data: {"choices":[{"delta":{"content":"'' @ [CHR 0xC3] @ [CHR 0xA9] @ ''"}}]}\<newline>\<newline>'']
   \<and> streamAnthropicResponse utf8_toString (\<lambda>s. if s = (''{"choices":[{"delta":{"content":"'' @ [CHR 0xC3] @ [CHR 0xA9] @ ''"}}]}'')
          then Some (JObj [(''choices'', JArr [JObj [(''delta'', JObj [(''content'', JStr ([CHR 0xC3] @ [CHR 0xA9]))])]])])
          else if s = (''{"choices":[{"delta":{"content":"'' @ [CHR 0xEF] @ [CHR 0xBF] @ [CHR 0xBD] @ [CHR 0xEF] @ [CHR 0xBF] @ [CHR 0xBD] @ ''"}}]}'')
          then Some (JObj [(''choices'', JArr [JObj [(''delta'', JObj [(''content'', JStr ([CHR 0xEF] @ [CHR 0xBF] @ [CHR 0xBD] @ [CHR 0xEF] @ [CHR 0xBF] @ [CHR 0xBD]))])]])])
          else None)
     [''data: {"choices":[{"delta":{"content":"'' @ [CHR 0xC3] @ [CHR 0xA9] @ ''"}}]}\<newline>\<newline>''] ''msg_1'' ''oca/gpt-4.1'' =
    [MessageStart ''msg_1'' ''oca/gpt-4.1'',
     ContentBlockStart 0 TextBlock,
     ContentBlockDelta 0 (TextDelta (JStr ([CHR 0xC3] @ [CHR 0xA9])))]
   \<and> streamAnthropicResponse utf8_toString (\<lambda>s. if s = (''{"choices":[{"delta":{"content":"'' @ [CHR 0xC3] @ [CHR 0xA9] @ ''"}}]}'')
          then Some (JObj [(''choices'', JArr [JObj [(''delta'', JObj [(''content'', JStr ([CHR 0xC3] @ [CHR 0xA9]))])]])])
          else if s = (''{"choices":[{"delta":{"content":"'' @ [CHR 0xEF] @ [CHR 0xBF] @ [CHR 0xBD] @ [CHR 0xEF] @ [CHR 0xBF] @ [CHR 0xBD] @ ''"}}]}'')
          then Some (JObj [(''choices'', JArr [JObj [(''delta'', JObj [(''content'', JStr ([CHR 0xEF] @ [CHR 0xBF] @ [CHR 0xBD] @ [CHR 0xEF] @ [CHR 0xBF] @ [CHR 0xBD]))])]])])
          else None)
     [''data: {"choices":[{"delta":{"content":"'' @ [CHR 0xC3],
      [CHR 0xA9] @ ''"}}]}\<newline>\<newline>''] ''msg_1'' ''oca/gpt-4.1'' =
    [MessageStart ''msg_1'' ''oca/gpt-4.1'',
     ContentBlockStart 0 TextBlock,
     ContentBlockDelta 0 (TextDelta (JStr ([CHR 0xEF] @ [CHR 0xBF] @ [CHR 0xBD] @ [CHR 0xEF] @ [CHR 0xBF] @ [CHR 0xBD])))]\<close>
  using streamAnthropicResponse_split_character
    [of \<open>(\<lambda>s. if s = (''{"choices":[{"delta":{"content":"'' @ [CHR 0xC3] @ [CHR 0xA9] @ ''"}}]}'')
          then Some (JObj [(''choices'', JArr [JObj [(''delta'', JObj [(''content'', JStr ([CHR 0xC3] @ [CHR 0xA9]))])]])])
          else if s = (''{"choices":[{"delta":{"content":"'' @ [CHR 0xEF] @ [CHR 0xBF] @ [CHR 0xBD] @ [CHR 0xEF] @ [CHR 0xBF] @ [CHR 0xBD] @ ''"}}]}'')
          then Some (JObj [(''choices'', JArr [JObj [(''delta'', JObj [(''content'', JStr ([CHR 0xEF] @ [CHR 0xBF] @ [CHR 0xBD] @ [CHR 0xEF] @ [CHR 0xBF] @ [CHR 0xBD]))])]])])
          else None)\<close>
        \<open>''msg_1''\<close> \<open>''oca/gpt-4.1''\<close>]
  by simp

text \<open>
  A tool call whose arguments arrive in three consecutive chunks: one
  \<open>content_block_start\<close> of type \<open>tool_use\<close>, then the three fragments as
  \<open>input_json_delta\<close> events, in order.
\<close>

lemma streamAnthropicResponse_tool_call_three_chunks:
  assumes p1: \<open>parse (''{"choices":[{"delta":{"tool_calls":[{"id":"call_1","function":{"name":"get_weather","arguments":"{'' @ [CHR 0x5C] @ ''"ci"}}]}}]}'') =
      Some (JObj [(''choices'', JArr [JObj [(''delta'', JObj [(''tool_calls'', JArr [JObj [(''id'', JStr ''call_1''), (''function'', JObj [(''name'', JStr ''get_weather''), (''arguments'', JStr ''{"ci'')])]])])]])])\<close>
    and p2: \<open>parse (''{"choices":[{"delta":{"tool_calls":[{"function":{"arguments":"ty'' @ [CHR 0x5C] @ ''":'' @ [CHR 0x5C] @ ''"Pa"}}]}}]}'') =
      Some (JObj [(''choices'', JArr [JObj [(''delta'', JObj [(''tool_calls'', JArr [JObj [(''function'', JObj [(''arguments'', JStr ''ty":"Pa'')])]])])]])])\<close>
    and p3: \<open>parse (''{"choices":[{"delta":{"tool_calls":[{"function":{"arguments":"ris'' @ [CHR 0x5C] @ ''"}"}}]}}]}'') =
      Some (JObj [(''choices'', JArr [JObj [(''delta'', JObj [(''tool_calls'', JArr [JObj [(''function'', JObj [(''arguments'', JStr ''ris"}'')])]])])]])])\<close>
  shows \<open>streamAnthropicResponse utf8_toString parse
     [''data: {"choices":[{"delta":{"tool_calls":[{"id":"call_1","function":{"name":"get_weather","arguments":"{'' @ [CHR 0x5C] @ ''"ci"}}]}}]}\<newline>\<newline>'',
      ''data: {"choices":[{"delta":{"tool_calls":[{"function":{"arguments":"ty'' @ [CHR 0x5C] @ ''":'' @ [CHR 0x5C] @ ''"Pa"}}]}}]}\<newline>\<newline>'',
      ''data: {"choices":[{"delta":{"tool_calls":[{"function":{"arguments":"ris'' @ [CHR 0x5C] @ ''"}"}}]}}]}\<newline>\<newline>''] messageId modelName =
    [MessageStart messageId modelName,
     ContentBlockStart 0 (ToolUseBlock (JStr ''call_1'') (JStr ''get_weather'')),
     ContentBlockDelta 0 (InputJsonDelta (JStr ''{"ci'')),
     ContentBlockDelta 0 (InputJsonDelta (JStr ''ty":"Pa'')),
     ContentBlockDelta 0 (InputJsonDelta (JStr ''ris"}''))]\<close>
  using p1 p2 p3
  by (simp add: streamAnthropicResponse_def utf8_toString_def REPLACEMENT_def process_line_def startsWith_def
      handle_data_def tool_call_delta_def opt_get_def nullish_def js_or_def map_stop_reason_def Let_def)

section \<open>Non-streaming aggregation: theorems\<close>



lemma aggregate_lines_inert:
  "list_all (\<lambda>l. \<not> startsWith l ''data: '') lines \<Longrightarrow>
   aggregate_lines parse numstr lines a = a"
  by (induction lines arbitrary: a) auto









text \<open>
  A chunk whose delta carries tool-call fragments and no text leaves the content as it
  was.
\<close>

lemma aggregate_data_tool_calls_only:
  "first_choice data = Some choice \<Longrightarrow>
   \<not> truthy (opt_get (opt_get choice ''delta'') ''content'') \<Longrightarrow>
   fullContent (aggregate_data numstr data a) = fullContent a"
  by (auto simp: aggregate_data_def first_choice_def Let_def split: option.splits)




text \<open>
  The aggregation decodes each chunk by itself, as the streaming transcoder does: a
  chunk boundary inside the two bytes of \<open>e-acute\<close> gives two replacement characters
  in the aggregated text.
\<close>

lemma aggregate_response_split_character:
  assumes p1: \<open>parse (''{"choices":[{"delta":{"content":"'' @ [CHR 0xC3] @ [CHR 0xA9] @ ''"}}]}'') =
      Some (JObj [(''choices'', JArr [JObj [(''delta'', JObj [(''content'', JStr ([CHR 0xC3] @ [CHR 0xA9]))])]])])\<close>
    and p2: \<open>parse (''{"choices":[{"delta":{"content":"'' @ [CHR 0xEF] @ [CHR 0xBF] @ [CHR 0xBD] @ [CHR 0xEF] @ [CHR 0xBF] @ [CHR 0xBD] @ ''"}}]}'') =
      Some (JObj [(''choices'', JArr [JObj [(''delta'', JObj [(''content'', JStr ([CHR 0xEF] @ [CHR 0xBF] @ [CHR 0xBD] @ [CHR 0xEF] @ [CHR 0xBF] @ [CHR 0xBD]))])]])])\<close>
  shows \<open>resp_content
     (aggregate_response utf8_toString parse numstr
     [''data: {"choices":[{"delta":{"content":"'' @ [CHR 0xC3] @ [CHR 0xA9] @ ''"}}]}\<newline>\<newline>'']
     messageId modelName) =
     [TextContent ([CHR 0xC3] @ [CHR 0xA9])]
   \<and> resp_content
     (aggregate_response utf8_toString parse numstr
     [''data: {"choices":[{"delta":{"content":"'' @ [CHR 0xC3],
      [CHR 0xA9] @ ''"}}]}\<newline>\<newline>'']
     messageId modelName) =
     [TextContent ([CHR 0xEF] @ [CHR 0xBF] @ [CHR 0xBD] @ [CHR 0xEF] @ [CHR 0xBF] @ [CHR 0xBD])]\<close>
  using p1 p2
  by (simp add: aggregate_response_def utf8_toString_def REPLACEMENT_def startsWith_def
      aggregate_data_def opt_get_def nullish_def Let_def)

section \<open>Token manager: theorems\<close>

text \<open>
  Claim C3. The refresh fails when the discovery GET is rejected or when the token POST
  is rejected, with the error \<open>err\<close>. If \<open>err\<close> has status 400 and the error code
  \<open>invalid_grant\<close> or \<open>invalid_token\<close>, doRefreshToken fails with the
  re-authentication error and the manager holds no refresh token, no access token, no
  expiry and no token file, so isAuthenticated is false. For every other error
  (a network error without response, a 5xx, a 400 with another code) it fails and the
  manager is exactly as before the call.
\<close>

theorem doRefreshToken_failure_policy:
  assumes "http_get net (oca_idcs_url config @ ''/.well-known/openid-configuration'') = Rejected err
     \<or> (\<exists>discovery.
           http_get net (oca_idcs_url config @ ''/.well-known/openid-configuration'') = Fulfilled discovery
         \<and> \<not> falsy_str (refreshToken tm)
         \<and> http_post net (token_endpoint discovery)
               [(''grant_type'', ''refresh_token''),
                (''refresh_token'', the (refreshToken tm)),
                (''client_id'', client_id config)] = Rejected err)"
  shows "(err_status err = Some 400 \<and>
            (opt_get (err_data err) ''error'' = JStr ''invalid_grant'' \<or>
             opt_get (err_data err) ''error'' = JStr ''invalid_token'') \<longrightarrow>
            fst (doRefreshToken config net now tm) =
              Inl (Error ''Refresh token expired. Please visit /login to re-authenticate.'') \<and>
            refreshToken (snd (doRefreshToken config net now tm)) = None \<and>
            accessToken (snd (doRefreshToken config net now tm)) = None \<and>
            tokenExpiry (snd (doRefreshToken config net now tm)) = None \<and>
            token_file (snd (doRefreshToken config net now tm)) = None \<and>
            \<not> isAuthenticated (snd (doRefreshToken config net now tm)))
       \<and> (\<not> (err_status err = Some 400 \<and>
               (opt_get (err_data err) ''error'' = JStr ''invalid_grant'' \<or>
                opt_get (err_data err) ''error'' = JStr ''invalid_token'')) \<longrightarrow>
            (\<exists>msg. fst (doRefreshToken config net now tm) = Inl (Error msg)) \<and>
            snd (doRefreshToken config net now tm) = tm)"
proof -
  have c: "opt_get (if nullish (err_data err) then JObj [] else err_data err) ''error''
           = opt_get (err_data err) ''error''"
    by (auto simp: nullish_def opt_get_def)
  from assms have r: "doRefreshToken config net now tm = refresh_catch err tm"
    by (auto simp: doRefreshToken_def)
  show ?thesis
    unfolding r
    by (auto simp: refresh_catch_def c Let_def clearAuth_def isAuthenticated_def)
qed

text \<open>
  A manager holding the refresh token \<open>rt-1\<close>: after a token POST rejected with status
  400 and \<open>{error: "invalid_grant"}\<close> it is not authenticated; after a token POST
  rejected with status 503 it is unchanged.
\<close>

theorem doRefreshToken_failure_policy_witness:
  "\<not> isAuthenticated
       (snd (doRefreshToken
          \<lparr> client_id = ''c'', oca_idcs_url = ''https://idp'', scopes = ''openid offline_access'',
            oca_base_url = ''https://api'' \<rparr>
          \<lparr> http_get = (\<lambda>url. Fulfilled \<lparr> token_endpoint = Some ''https://idp/token'' \<rparr>),
            http_post = (\<lambda>endpoint params.
               Rejected \<lparr> err_status = Some 400,
                          err_data = JObj [(''error'', JStr ''invalid_grant'')],
                          err_message = Some ''Request failed with status code 400'' \<rparr>) \<rparr>
          1000
          \<lparr> refreshToken = Some ''rt-1'', accessToken = Some ''at-0'', tokenExpiry = Some 500,
            refreshPromise = Some 0, token_file = Some ''rt-1'' \<rparr>))
   \<and> snd (doRefreshToken
          \<lparr> client_id = ''c'', oca_idcs_url = ''https://idp'', scopes = ''openid offline_access'',
            oca_base_url = ''https://api'' \<rparr>
          \<lparr> http_get = (\<lambda>url. Fulfilled \<lparr> token_endpoint = Some ''https://idp/token'' \<rparr>),
            http_post = (\<lambda>endpoint params.
               Rejected \<lparr> err_status = Some 503, err_data = JStr ''Service Unavailable'',
                          err_message = Some ''Request failed with status code 503'' \<rparr>) \<rparr>
          1000
          \<lparr> refreshToken = Some ''rt-1'', accessToken = Some ''at-0'', tokenExpiry = Some 500,
            refreshPromise = Some 0, token_file = Some ''rt-1'' \<rparr>)
     = \<lparr> refreshToken = Some ''rt-1'', accessToken = Some ''at-0'', tokenExpiry = Some 500,
         refreshPromise = Some 0, token_file = Some ''rt-1'' \<rparr>"
  using
    doRefreshToken_failure_policy
      [of "\<lparr> http_get = (\<lambda>url. Fulfilled \<lparr> token_endpoint = Some ''https://idp/token'' \<rparr>),
            http_post = (\<lambda>endpoint params.
               Rejected \<lparr> err_status = Some 400,
                          err_data = JObj [(''error'', JStr ''invalid_grant'')],
                          err_message = Some ''Request failed with status code 400'' \<rparr>) \<rparr>"
          "\<lparr> client_id = ''c'', oca_idcs_url = ''https://idp'', scopes = ''openid offline_access'',
            oca_base_url = ''https://api'' \<rparr>"
          "\<lparr> err_status = Some 400,
                          err_data = JObj [(''error'', JStr ''invalid_grant'')],
                          err_message = Some ''Request failed with status code 400'' \<rparr>"
          "\<lparr> refreshToken = Some ''rt-1'', accessToken = Some ''at-0'', tokenExpiry = Some 500,
            refreshPromise = Some 0, token_file = Some ''rt-1'' \<rparr>"
          1000]
    doRefreshToken_failure_policy
      [of "\<lparr> http_get = (\<lambda>url. Fulfilled \<lparr> token_endpoint = Some ''https://idp/token'' \<rparr>),
            http_post = (\<lambda>endpoint params.
               Rejected \<lparr> err_status = Some 503, err_data = JStr ''Service Unavailable'',
                          err_message = Some ''Request failed with status code 503'' \<rparr>) \<rparr>"
          "\<lparr> client_id = ''c'', oca_idcs_url = ''https://idp'', scopes = ''openid offline_access'',
            oca_base_url = ''https://api'' \<rparr>"
          "\<lparr> err_status = Some 503, err_data = JStr ''Service Unavailable'',
                          err_message = Some ''Request failed with status code 503'' \<rparr>"
          "\<lparr> refreshToken = Some ''rt-1'', accessToken = Some ''at-0'', tokenExpiry = Some 500,
            refreshPromise = Some 0, token_file = Some ''rt-1'' \<rparr>"
          1000]
  by (simp add: falsy_str_def opt_get_def)

text \<open>
  While a refresh is in flight, a call of getToken with a refresh token and no valid
  cached token hands back the promise in flight and changes nothing.
\<close>

lemma getToken_joins_in_flight:
  "\<not> falsy_str (refreshToken (manager srv)) \<Longrightarrow>
   \<not> cached_token_valid now (manager srv) \<Longrightarrow>
   refreshPromise (manager srv) = Some p \<Longrightarrow>
   getToken now srv = (Awaiting p, srv)"
  by (simp add: getToken_def)

lemma getToken_calls_join_in_flight:
  "\<not> falsy_str (refreshToken (manager srv)) \<Longrightarrow>
   list_all (\<lambda>now. \<not> cached_token_valid now (manager srv)) nows \<Longrightarrow>
   refreshPromise (manager srv) = Some p \<Longrightarrow>
   getToken_calls nows srv = (replicate (length nows) (Awaiting p), srv)"
  by (induction nows) (auto simp: getToken_joins_in_flight)

lemma received_replicate:
  "map (received p result) (replicate n (Awaiting p)) = replicate n (Some result)"
  by (induction n) auto

text \<open>
  Claim C1. The manager holds a refresh token and no refresh is in flight. N calls of
  getToken are made, N at least 1, each at a time at which no cached access token is
  valid, before the refresh settles. Then doRefreshToken is called exactly once, by the
  first call; every one of the N calls waits on the promise of that one call; and when
  it settles, whatever the network answers, every caller receives its result and no
  further refresh has been started.
\<close>

theorem getToken_concurrent_calls_single_refresh:
  assumes "\<not> falsy_str (refreshToken (manager srv))"
    and "refreshPromise (manager srv) = None"
    and "nows \<noteq> []"
    and "list_all (\<lambda>now. \<not> cached_token_valid now (manager srv)) nows"
  shows "fst (getToken_calls nows srv) = replicate (length nows) (Awaiting (refresh_calls srv))
       \<and> refresh_calls (snd (getToken_calls nows srv)) = refresh_calls srv + 1
       \<and> refreshPromise (manager (snd (getToken_calls nows srv))) = Some (refresh_calls srv)
       \<and> map (received (refresh_calls srv)
                 (fst (settle_refresh config net t (snd (getToken_calls nows srv)))))
              (fst (getToken_calls nows srv))
           = replicate (length nows)
               (Some (fst (doRefreshToken config net t (manager (snd (getToken_calls nows srv))))))
       \<and> refresh_calls (snd (settle_refresh config net t (snd (getToken_calls nows srv))))
           = refresh_calls srv + 1"
proof -
  from assms(3) obtain now rest where nows: "nows = now # rest" by (cases nows) auto
  let ?srv1 = "srv\<lparr> manager := (manager srv)\<lparr> refreshPromise := Some (refresh_calls srv) \<rparr>,
                    refresh_calls := refresh_calls srv + 1 \<rparr>"
  from assms nows have first: "getToken now srv = (Awaiting (refresh_calls srv), ?srv1)"
    by (simp add: getToken_def)
  have valid: "cached_token_valid n ((manager srv)\<lparr> refreshPromise := x \<rparr>)
      = cached_token_valid n (manager srv)" for n x
    by (simp add: cached_token_valid_def)
  from assms nows have rest: "getToken_calls rest ?srv1
      = (replicate (length rest) (Awaiting (refresh_calls srv)), ?srv1)"
    by (intro getToken_calls_join_in_flight) (simp_all add: valid)
  have calls: "getToken_calls nows srv
      = (replicate (length nows) (Awaiting (refresh_calls srv)), ?srv1)"
    using rest by (simp add: nows first)
  show ?thesis
    unfolding calls
    by (simp add: received_replicate settle_refresh_def split: prod.splits)
qed

text \<open>
  Three calls against a manager with an expired access token: one refresh, three
  callers on its promise.
\<close>

theorem getToken_concurrent_calls_single_refresh_witness:
  "fst (getToken_calls [1000, 1001, 1002]
          \<lparr> manager = \<lparr> refreshToken = Some ''rt-1'', accessToken = Some ''at-0'',
                        tokenExpiry = Some 500, refreshPromise = None,
                        token_file = Some ''rt-1'' \<rparr>,
            refresh_calls = 0 \<rparr>)
     = [Awaiting 0, Awaiting 0, Awaiting 0]
   \<and> refresh_calls (snd (getToken_calls [1000, 1001, 1002]
          \<lparr> manager = \<lparr> refreshToken = Some ''rt-1'', accessToken = Some ''at-0'',
                        tokenExpiry = Some 500, refreshPromise = None,
                        token_file = Some ''rt-1'' \<rparr>,
            refresh_calls = 0 \<rparr>))
     = 1"
  using getToken_concurrent_calls_single_refresh
    [of "\<lparr> manager = \<lparr> refreshToken = Some ''rt-1'', accessToken = Some ''at-0'',
                        tokenExpiry = Some 500, refreshPromise = None,
                        token_file = Some ''rt-1'' \<rparr>,
            refresh_calls = 0 \<rparr>"
        "[1000, 1001, 1002]"]
  by (simp add: falsy_str_def cached_token_valid_def)

section \<open>Login and callback: theorems\<close>

text \<open>base64url: length, alphabet, and encoding in groups of three bytes.\<close>

lemma length_base64url: "length (base64url bs) = (4 * length bs + 2) div 3"
  by (induction bs rule: base64url.induct) (auto simp: Let_def)

lemma b64_in_alphabet: "b64 n \<in> set b64url_alphabet"
proof -
  have "length b64url_alphabet = 64" by (simp add: b64url_alphabet_def)
  then have "n mod 64 < length b64url_alphabet" by simp
  then show ?thesis unfolding b64_def by (rule nth_mem)
qed

lemma base64url_alphabet: "set (base64url bs) \<subseteq> set b64url_alphabet"
  by (induction bs rule: base64url.induct) (auto simp: Let_def b64_in_alphabet)

lemma base64url_no_padding: "CHR ''='' \<notin> set (base64url bs)"
proof -
  have "CHR ''='' \<notin> set b64url_alphabet" by (simp add: b64url_alphabet_def)
  with base64url_alphabet [of bs] show ?thesis by blast
qed

lemma base64url_append:
  "length xs mod 3 = 0 \<Longrightarrow> base64url (xs @ ys) = base64url xs @ base64url ys"
proof (induction xs rule: base64url.induct)
  case (1 a b c rest)
  then have "length rest mod 3 = 0" by (simp add: mod_Suc split: if_splits)
  with 1 show ?case by (simp add: Let_def)
qed simp_all

lemma take_base64url:
  assumes "24 \<le> length bs"
  shows "take 32 (base64url bs) = base64url (take 24 bs)"
proof -
  have l: "length (take 24 bs) = 24" using assms by simp
  have "base64url bs = base64url (take 24 bs @ drop 24 bs)" by simp
  also have "\<dots> = base64url (take 24 bs) @ base64url (drop 24 bs)"
    by (rule base64url_append) (unfold l, simp)
  finally have "take 32 (base64url bs) = take 32 (base64url (take 24 bs) @ base64url (drop 24 bs))"
    by simp
  moreover have "length (base64url (take 24 bs)) = 32"
  proof -
    have "length (base64url (take 24 bs)) = (4 * length (take 24 bs) + 2) div 3"
      by (rule length_base64url)
    also have "\<dots> = 32" unfolding l by simp
    finally show ?thesis .
  qed
  ultimately show ?thesis by simp
qed

lemma length_randomBytes: "length (fst (randomBytes n e)) = n"
  by (simp add: randomBytes_def)

lemma generateRandomString_32:
  "fst (generateRandomString 32 e) = base64url (map e [0..<24])"
proof -
  have "take 24 (map e [0..<32]) = map e [0..<24]"
    by (simp add: take_map del: upt_rec_numeral)
  then show ?thesis
    using take_base64url [of "map e [0..<32]"]
    by (simp add: generateRandomString_def randomBytes_def del: upt_rec_numeral base64url.simps)
qed

lemma length_generateRandomString_32: "length (fst (generateRandomString 32 e)) = 32"
  by (simp add: generateRandomString_32 length_base64url del: upt_rec_numeral base64url.simps)

lemma map_entropy_shift: "map (\<lambda>i. e (i + k)) [0..<n] = map e [k..<k + n]"
proof -
  have "map e [k..<k + n] = map e (map (\<lambda>i. i + k) [0..<n])"
    by (simp add: map_add_upt add.commute)
  then show ?thesis by (simp add: comp_def)
qed

lemma fst_generateCodeVerifier: "fst (generateCodeVerifier e) = base64url (map e [0..<96])"
  by (simp add: generateCodeVerifier_def randomBytes_def del: upt_rec_numeral base64url.simps)

lemma snd_generateCodeVerifier: "snd (generateCodeVerifier e) = (\<lambda>i. e (i + 96))"
  by (simp add: generateCodeVerifier_def randomBytes_def del: upt_rec_numeral base64url.simps)

lemma snd_generateRandomString: "snd (generateRandomString n e) = (\<lambda>i. e (i + n))"
  by (simp add: generateRandomString_def randomBytes_def del: upt_rec_numeral base64url.simps)

lemma createAuthUrl_state:
  "fst (generateRandomString 32 (snd (generateCodeVerifier e))) = base64url (map e [96..<120])"
proof -
  have "fst (generateRandomString 32 (snd (generateCodeVerifier e)))
      = base64url (map (\<lambda>i. e (i + 96)) [0..<24])"
    by (simp only: snd_generateCodeVerifier generateRandomString_32)
  also have "map (\<lambda>i. e (i + 96)) [0..<24] = map e [96..<96 + 24]"
    by (rule map_entropy_shift)
  finally show ?thesis by (simp del: upt_rec_numeral base64url.simps)
qed

lemma createAuthUrl_nonce:
  "fst (generateRandomString 32 (snd (generateRandomString 32 (snd (generateCodeVerifier e)))))
     = base64url (map e [128..<152])"
proof -
  have "snd (generateRandomString 32 (snd (generateCodeVerifier e))) = (\<lambda>i. e (i + 128))"
    by (simp add: snd_generateCodeVerifier snd_generateRandomString add.assoc)
  then have "fst (generateRandomString 32 (snd (generateRandomString 32 (snd (generateCodeVerifier e)))))
      = base64url (map (\<lambda>i. e (i + 128)) [0..<24])"
    by (simp only: generateRandomString_32)
  also have "map (\<lambda>i. e (i + 128)) [0..<24] = map e [128..<128 + 24]"
    by (rule map_entropy_shift)
  finally show ?thesis by (simp del: upt_rec_numeral base64url.simps)
qed

text \<open>createAuthUrl with its three draws of entropy written out.\<close>

lemma createAuthUrl_unfolded:
  "createAuthUrl config sha256 urlencode redirectUri srv =
      (oca_idcs_url config @ ''/oauth2/v1/authorize?'' @
       urlencode
         [(''client_id'', client_id config),
          (''response_type'', ''code''),
          (''scope'', scopes config),
          (''redirect_uri'', redirectUri),
          (''state'', base64url (map (entropy_supply srv) [96..<120])),
          (''nonce'', base64url (map (entropy_supply srv) [128..<152])),
          (''code_challenge'', base64url (sha256 (base64url (map (entropy_supply srv) [0..<96])))),
          (''code_challenge_method'', ''S256'')],
       srv\<lparr> pkceStates :=
              (cleanupExpiredStates (clock srv) (pkceStates srv))
                (base64url (map (entropy_supply srv) [96..<120]) \<mapsto>
                   \<lparr> code_verifier = base64url (map (entropy_supply srv) [0..<96]),
                     nonce = base64url (map (entropy_supply srv) [128..<152]),
                     redirect_uri = redirectUri, created_at = clock srv \<rparr>),
            entropy_supply :=
              snd (generateRandomString 32
                     (snd (generateRandomString 32
                            (snd (generateCodeVerifier (entropy_supply srv)))))) \<rparr>)"
  unfolding createAuthUrl_def Let_def case_prod_beta generateCodeChallenge_def
  by (simp only: fst_generateCodeVerifier createAuthUrl_state createAuthUrl_nonce)

lemma length_state_24: "length (base64url (map e [k..<k + 24])) = 32"
  unfolding length_base64url by (simp del: upt_rec_numeral)

text \<open>
  Claim C6, as the code has it. The code verifier is the base64url encoding, 128
  characters without padding, of the first 96 bytes of entropy; the code challenge is
  the base64url encoding of the SHA-256 hash of the verifier; \<open>state\<close> and \<open>nonce\<close>
  are drawn from the next 32 bytes each, and each is the first 32 characters of the
  encoding of its 32 bytes, which is the encoding of the first 24 of them: 192 bits, not
  256. The URL is the authorization endpoint with the eight parameters, and the session
  stored under \<open>state\<close> holds the verifier, the nonce, the redirect URI and the time.
\<close>

theorem createAuthUrl_parameters:
  "fst (createAuthUrl config sha256 urlencode redirectUri srv) =
     oca_idcs_url config @ ''/oauth2/v1/authorize?'' @
     urlencode
       [(''client_id'', client_id config),
        (''response_type'', ''code''),
        (''scope'', scopes config),
        (''redirect_uri'', redirectUri),
        (''state'', base64url (map (entropy_supply srv) [96..<120])),
        (''nonce'', base64url (map (entropy_supply srv) [128..<152])),
        (''code_challenge'', base64url (sha256 (base64url (map (entropy_supply srv) [0..<96])))),
        (''code_challenge_method'', ''S256'')]
   \<and> pkceStates (snd (createAuthUrl config sha256 urlencode redirectUri srv))
       (base64url (map (entropy_supply srv) [96..<120])) =
       Some \<lparr> code_verifier = base64url (map (entropy_supply srv) [0..<96]),
              nonce = base64url (map (entropy_supply srv) [128..<152]),
              redirect_uri = redirectUri,
              created_at = clock srv \<rparr>
   \<and> length (base64url (map (entropy_supply srv) [0..<96])) = 128
   \<and> CHR ''='' \<notin> set (base64url (map (entropy_supply srv) [0..<96]))
   \<and> length (base64url (map (entropy_supply srv) [96..<120])) = 32
   \<and> length (base64url (map (entropy_supply srv) [128..<152])) = 32"
proof -
  let ?e = "entropy_supply srv"
  have l96: "length (map ?e [0..<96]) = 96" and l24: "length (map ?e [96..<120]) = 24"
    and l24': "length (map ?e [128..<152]) = 24"
    by (simp_all del: upt_rec_numeral)
  show ?thesis
    unfolding createAuthUrl_unfolded fst_conv snd_conv length_base64url l96 l24 l24'
    by (simp add: base64url_no_padding del: upt_rec_numeral base64url.simps)
qed

text \<open>
  Claim C6 as stated fails for the entropy of \<open>state\<close> and \<open>nonce\<close>: two draws of 32
  random bytes that differ in their last byte give the same 32-character string.
\<close>

theorem generateRandomString_collision_counterexample:
  "fst (randomBytes 32 (\<lambda>i. CHR 0x00))
     \<noteq> fst (randomBytes 32 (\<lambda>i. if i = 31 then CHR 0xFF else CHR 0x00))
   \<and> fst (generateRandomString 32 (\<lambda>i. CHR 0x00))
     = fst (generateRandomString 32 (\<lambda>i. if i = 31 then CHR 0xFF else CHR 0x00))"
proof
  show "fst (randomBytes 32 (\<lambda>i. CHR 0x00))
     \<noteq> fst (randomBytes 32 (\<lambda>i. if i = 31 then CHR 0xFF else CHR 0x00))"
  proof
    assume "fst (randomBytes 32 (\<lambda>i. CHR 0x00))
      = fst (randomBytes 32 (\<lambda>i. if i = 31 then CHR 0xFF else CHR 0x00))"
    then have "\<forall>i\<in>{0..<32::nat}. CHR 0x00 = (if i = 31 then CHR 0xFF else CHR 0x00)"
      by (simp add: randomBytes_def del: upt_rec_numeral)
    then have "CHR 0x00 = (if (31::nat) = 31 then CHR 0xFF else CHR 0x00)"
      by (rule bspec) simp
    then show False by simp
  qed
  show "fst (generateRandomString 32 (\<lambda>i. CHR 0x00))
     = fst (generateRandomString 32 (\<lambda>i. if i = 31 then CHR 0xFF else CHR 0x00))"
  proof -
    have "map (\<lambda>i. CHR 0x00) [0..<24]
        = map (\<lambda>i::nat. if i = 31 then CHR 0xFF else CHR 0x00) [0..<24]"
      by (simp del: upt_rec_numeral)
    then show ?thesis by (simp only: generateRandomString_32)
  qed
qed

text \<open>
  The sweep removes a session older than ten minutes and keeps a younger one; it runs
  in createAuthUrl only.
\<close>

lemma cleanupExpiredStates_sweeps:
  "sessions state = Some data \<Longrightarrow>
   cleanupExpiredStates now sessions state =
     (if created_at data < now - 600000 then None else Some data)"
  by (simp add: cleanupExpiredStates_def)

text \<open>
  Claim C5, evaluated where it fails. A session is created by createAuthUrl; eleven
  minutes pass with no other call; the callback arrives with the session's state. The
  session, now 660000 ms old, is still found, and the handler does not answer with the
  invalid-or-expired-state page: it goes on to the token exchange.
\<close>

theorem callback_after_eleven_minutes:
  "getPkceState (base64url (map (entropy_supply srv) [96..<120]))
     (pkceStates (advance_clock (11 * 60 * 1000)
        (snd (createAuthUrl config sha256 urlencode redirectUri srv)))) =
     Some \<lparr> code_verifier = base64url (map (entropy_supply srv) [0..<96]),
            nonce = base64url (map (entropy_supply srv) [128..<152]),
            redirect_uri = redirectUri,
            created_at = clock srv \<rparr>
   \<and> clock (advance_clock (11 * 60 * 1000)
        (snd (createAuthUrl config sha256 urlencode redirectUri srv))) - clock srv = 660000
   \<and> fst (callback_handler config net
        \<lparr> q_code = Some ''code-1'',
          q_state = Some (base64url (map (entropy_supply srv) [96..<120])),
          q_error = None \<rparr>
        (advance_clock (11 * 60 * 1000)
           (snd (createAuthUrl config sha256 urlencode redirectUri srv))))
     \<noteq> InvalidOrExpiredState"
proof -
  let ?srv1 = "snd (createAuthUrl config sha256 urlencode redirectUri srv)"
  let ?state = "base64url (map (entropy_supply srv) [96..<120])"
  have stored: "pkceStates ?srv1 ?state =
      Some \<lparr> code_verifier = base64url (map (entropy_supply srv) [0..<96]),
             nonce = base64url (map (entropy_supply srv) [128..<152]),
             redirect_uri = redirectUri,
             created_at = clock srv \<rparr>"
    unfolding createAuthUrl_unfolded by (simp del: upt_rec_numeral base64url.simps)
  have clock: "clock ?srv1 = clock srv"
    unfolding createAuthUrl_unfolded by (simp del: upt_rec_numeral base64url.simps)
  have "length ?state = 32"
    using length_state_24 [of "entropy_supply srv" 96] by (simp del: upt_rec_numeral base64url.simps)
  then have nonempty: "?state \<noteq> []" by auto
  show ?thesis
    using stored clock nonempty
    by (auto simp: getPkceState_def advance_clock_def callback_handler_def falsy_str_def Let_def
             simp del: upt_rec_numeral base64url.simps
             split: sum.splits)
qed

text \<open>
  Claim C7. Two callbacks carry the same state, each with a code and without an OAuth
  error. Whatever the first one finds and whatever the token exchange answers, after it
  no session is stored under the state: the session is removed before the exchange is
  attempted. The second callback is answered with the invalid-or-expired-state page.
\<close>

theorem callback_state_consumed_once:
  assumes "falsy_str (q_error query1)" and "\<not> falsy_str (q_code query1)"
    and "falsy_str (q_error query2)" and "\<not> falsy_str (q_code query2)"
    and "q_state query1 = Some state" and "q_state query2 = Some state" and "state \<noteq> []"
  shows "pkceStates (snd (callback_handler config net1 query1 srv)) = (pkceStates srv)(state := None)
       \<and> fst (callback_handler config net2 query2 (snd (callback_handler config net1 query1 srv)))
           = InvalidOrExpiredState"
proof -
  have removed: "pkceStates (snd (callback_handler config net1 query1 srv))
      = (pkceStates srv)(state := None)"
    using assms
    by (auto simp: callback_handler_def getPkceState_def removePkceState_def falsy_str_def Let_def
             split: option.splits sum.splits)
  then have "getPkceState state (pkceStates (snd (callback_handler config net1 query1 srv))) = None"
    by (simp add: getPkceState_def)
  with assms have "fst (callback_handler config net2 query2 (snd (callback_handler config net1 query1 srv)))
      = InvalidOrExpiredState"
    by (simp add: callback_handler_def falsy_str_def)
  with removed show ?thesis by simp
qed

text \<open>
  A server with one session, under the state \<open>s1\<close>, and an identity provider that
  answers the exchange with a refresh token: the second callback with \<open>s1\<close> is
  answered with the invalid-or-expired-state page.
\<close>

theorem callback_state_consumed_once_witness:
  "fst (callback_handler
     \<lparr> client_id = ''c'', oca_idcs_url = ''https://idp'', scopes = ''openid offline_access'',
       oca_base_url = ''https://api'' \<rparr>
     \<lparr> http_get = (\<lambda>url. Fulfilled \<lparr> token_endpoint = Some ''https://idp/token'' \<rparr>),
       http_post = (\<lambda>endpoint params.
          Fulfilled \<lparr> access_token = Some ''at-1'', expires_in = Some 3600,
                      refresh_token = Some ''rt-1'' \<rparr>) \<rparr>
     \<lparr> q_code = Some ''code-2'', q_state = Some ''s1'', q_error = None \<rparr>
     (snd (callback_handler
        \<lparr> client_id = ''c'', oca_idcs_url = ''https://idp'', scopes = ''openid offline_access'',
          oca_base_url = ''https://api'' \<rparr>
        \<lparr> http_get = (\<lambda>url. Fulfilled \<lparr> token_endpoint = Some ''https://idp/token'' \<rparr>),
          http_post = (\<lambda>endpoint params.
             Fulfilled \<lparr> access_token = Some ''at-1'', expires_in = Some 3600,
                         refresh_token = Some ''rt-1'' \<rparr>) \<rparr>
        \<lparr> q_code = Some ''code-1'', q_state = Some ''s1'', q_error = None \<rparr>
        \<lparr> clock = 1000,
          pkceStates = [''s1'' \<mapsto> \<lparr> code_verifier = ''v1'', nonce = ''n1'',
                                    redirect_uri = ''http://localhost:8669/callback'',
                                    created_at = 0 \<rparr>],
          tokenMgr = \<lparr> refreshToken = None, accessToken = None, tokenExpiry = None,
                       refreshPromise = None, token_file = None \<rparr>,
          entropy_supply = (\<lambda>i. CHR 0x00) \<rparr>)))
   = InvalidOrExpiredState"
  using callback_state_consumed_once
    [of "\<lparr> q_code = Some ''code-1'', q_state = Some ''s1'', q_error = None \<rparr>"
        "\<lparr> q_code = Some ''code-2'', q_state = Some ''s1'', q_error = None \<rparr>"
        "''s1''"
        "\<lparr> client_id = ''c'', oca_idcs_url = ''https://idp'', scopes = ''openid offline_access'',
          oca_base_url = ''https://api'' \<rparr>"
        "\<lparr> http_get = (\<lambda>url. Fulfilled \<lparr> token_endpoint = Some ''https://idp/token'' \<rparr>),
          http_post = (\<lambda>endpoint params.
             Fulfilled \<lparr> access_token = Some ''at-1'', expires_in = Some 3600,
                         refresh_token = Some ''rt-1'' \<rparr>) \<rparr>"
        "\<lparr> clock = 1000,
          pkceStates = [''s1'' \<mapsto> \<lparr> code_verifier = ''v1'', nonce = ''n1'',
                                    redirect_uri = ''http://localhost:8669/callback'',
                                    created_at = 0 \<rparr>],
          tokenMgr = \<lparr> refreshToken = None, accessToken = None, tokenExpiry = None,
                       refreshPromise = None, token_file = None \<rparr>,
          entropy_supply = (\<lambda>i. CHR 0x00) \<rparr>"
        "\<lparr> http_get = (\<lambda>url. Fulfilled \<lparr> token_endpoint = Some ''https://idp/token'' \<rparr>),
          http_post = (\<lambda>endpoint params.
             Fulfilled \<lparr> access_token = Some ''at-1'', expires_in = Some 3600,
                         refresh_token = Some ''rt-1'' \<rparr>) \<rparr>"]
  by (simp add: falsy_str_def)


end
